theory Spec2Isabelle
  imports Main "HOL-Library.Log_Nat"
begin

section \<open>JavaScript numbers\<close>

text \<open>
  The edge functions compute money amounts with JavaScript numbers, that is IEEE 754
  binary64 values. A finite number is modelled by the rational it denotes. Every
  arithmetic operation computes the exact result and rounds it to the nearest value
  with a 53 bit significand, ties to the even significand (\<open>fl\<close>). Overflow to
  Infinity and the subnormal range are not modelled: all amounts below stay far inside
  the normal range.
\<close>

type_synonym number = rat

text \<open>The binary exponent \<open>e\<close> of a positive rational: \<open>2^e \<le> x < 2^(e+1)\<close>.\<close>

definition binexp :: "rat \<Rightarrow> int" where
  "binexp x = (if 1 \<le> x then bitlen \<lfloor>x\<rfloor> - 1 else - bitlen (\<lceil>1 / x\<rceil> - 1))"

definition roundTiesToEven :: "rat \<Rightarrow> int" where
  "roundTiesToEven q =
     (let f = \<lfloor>q\<rfloor>; r = q - of_int f
      in if r < 1 / 2 then f else if 1 / 2 < r then f + 1 else if even f then f else f + 1)"

definition fl :: "rat \<Rightarrow> number" where
  "fl x = (if x = 0 then 0
           else let u = 2 powi (binexp \<bar>x\<bar> - 52)
                in sgn x * of_int (roundTiesToEven (\<bar>x\<bar> / u)) * u)"

definition js_mul :: "number \<Rightarrow> number \<Rightarrow> number" where
  "js_mul a b = fl (a * b)"

definition js_div :: "number \<Rightarrow> number \<Rightarrow> number" where
  "js_div a b = fl (a / b)"

definition js_sub :: "number \<Rightarrow> number \<Rightarrow> number" where
  "js_sub a b = fl (a - b)"

text \<open>
  \<open>Math.round\<close> returns the integer closest to its argument, the larger one on a
  tie. The result is again a binary64 value.
\<close>

definition Math_round :: "number \<Rightarrow> number" where
  "Math_round x = of_int \<lfloor>x + 1 / 2\<rfloor>"

text \<open>
  The literal \<open>1.10\<close> of \<open>calculatePricing\<close> is the binary64 value nearest to 11/10,
  which is \<open>4953959590107546 / 2^52\<close>.
\<close>

definition pifFeeMultiplier :: number where
  "pifFeeMultiplier = 4953959590107546 / 2 ^ 52"

section \<open>Database schema\<close>

text \<open>
  The handlers run against the tables of \<open>001_initial_schema.sql\<close>. Each table is
  given here by its column names, and the two tables the handlers insert into also by
  the columns that are \<open>NOT NULL\<close> and have no default. A query that names a column
  its table does not have is answered with an error, and so is an insert that names
  such a column or leaves a required one out.
\<close>

definition override_controls_columns :: "string list" where
  "override_controls_columns =
     [''feature_key'', ''enabled'', ''description'', ''updated_at'', ''updated_by'']"

definition files_columns :: "string list" where
  "files_columns =
     [''id'', ''family_id'', ''uploader_id'', ''version_label'', ''file_name'', ''file_format'',
      ''file_size_bytes'', ''storage_path'', ''preview_image_path'', ''title'', ''description'',
      ''price_cents'', ''stage'', ''validation_passed'', ''validated_at'', ''created_at'',
      ''updated_at'']"

definition file_royalty_chain_columns :: "string list" where
  "file_royalty_chain_columns = [''id'', ''file_id'', ''role'', ''member_id'', ''amount_cents'']"

definition orders_columns :: "string list" where
  "orders_columns =
     [''id'', ''file_id'', ''buyer_email'', ''buyer_member_id'', ''file_price_cents'',
      ''pif_fee_cents'', ''total_cents'', ''stripe_checkout_session_id'',
      ''stripe_payment_intent_id'', ''payment_status'', ''download_token'',
      ''download_expires_at'', ''downloaded_at'', ''download_attempts'', ''delivery_email_sent'',
      ''delivery_email_sent_at'', ''delivery_email_retries'', ''created_at'', ''paid_at'']"

definition orders_required :: "string list" where
  "orders_required =
     [''file_id'', ''buyer_email'', ''file_price_cents'', ''pif_fee_cents'', ''total_cents'']"

definition payouts_columns :: "string list" where
  "payouts_columns =
     [''id'', ''order_id'', ''member_id'', ''role'', ''amount_cents'', ''stripe_transfer_id'',
      ''status'', ''created_at'', ''transferred_at'']"

definition payouts_required :: "string list" where
  "payouts_required = [''order_id'', ''member_id'', ''role'', ''amount_cents'']"

definition known_columns :: "string list \<Rightarrow> string list \<Rightarrow> bool" where
  "known_columns table named = list_all (\<lambda>c. c \<in> set table) named"

definition insert_accepted :: "string list \<Rightarrow> string list \<Rightarrow> string list \<Rightarrow> bool" where
  "insert_accepted table required named =
     (known_columns table named \<and> list_all (\<lambda>c. c \<in> set named) required)"

section \<open>Database rows\<close>

text \<open>
  The rows of the tables, with the columns the handlers read or write. Integer columns
  read from the database are \<open>int\<close>; amounts computed by the functions are numbers.
  Nullable columns, and columns the code guards with \<open>?? 0\<close>, are options.
  Timestamps are milliseconds since the epoch. An order row also has its
  \<open>stripe_checkout_session_id\<close>, which no handler reads or writes, and a royalty row is
  as the schema has it: \<open>file_id\<close>, \<open>role\<close>, \<open>member_id\<close> and \<open>amount_cents\<close>.
\<close>

datatype payment_state = Pending | Paid | Failed | Refunded

record override_control =
  feature_key :: string
  enabled :: bool

record file_row =
  file_id :: string
  title :: string
  price_cents :: int
  stage :: string
  storage_path :: string

record royalty_row =
  royalty_file_id :: string
  royalty_role :: string
  royalty_member_id :: string
  royalty_amount_cents :: int

record order_row =
  order_id :: string
  order_file_id :: string
  buyer_email :: string
  stripe_checkout_session_id :: "string option"
  payment_status :: payment_state
  total_cents :: number
  pif_fee_cents :: number
  download_token :: "string option"
  download_expires_at :: "int option"
  downloaded_at :: "int option"
  download_attempts :: "int option"
  delivery_email_retries :: "int option"
  paid_at :: "int option"

record payout_row =
  payout_order_id :: string
  payout_member_id :: string
  payout_amount_cents :: number
  payout_status :: string

record db =
  override_controls :: "override_control list"
  files :: "file_row list"
  file_royalty_chain :: "royalty_row list"
  orders :: "order_row list"
  payouts :: "payout_row list"

text \<open>
  \<open>.single()\<close> yields a row only when the query matches exactly one. The handlers
  treat a query error like a missing row (\<open>error || !data\<close>), so a failing query is
  one that yields no row.
\<close>

definition single_row :: "'a list \<Rightarrow> 'a option" where
  "single_row xs = (case xs of [x] \<Rightarrow> Some x | _ \<Rightarrow> None)"

text \<open>The text columns of an order that a query can filter on, by column name.\<close>

definition order_text_column :: "string \<Rightarrow> order_row \<Rightarrow> string option" where
  "order_text_column c r =
     (if c = ''id'' then Some (order_id r)
      else if c = ''file_id'' then Some (order_file_id r)
      else if c = ''buyer_email'' then Some (buyer_email r)
      else if c = ''stripe_checkout_session_id'' then stripe_checkout_session_id r
      else if c = ''download_token'' then download_token r
      else None)"

text \<open>\<open>from("orders").select(cols).eq(c, v).single()\<close>\<close>

definition select_order :: "string list \<Rightarrow> string \<Rightarrow> string \<Rightarrow> db \<Rightarrow> order_row option" where
  "select_order cols c v s =
     (if known_columns orders_columns (c # cols)
      then single_row (filter (\<lambda>r. order_text_column c r = Some v) (orders s))
      else None)"

text \<open>\<open>from("files").select(cols).eq("id", v).single()\<close>\<close>

definition select_file :: "string list \<Rightarrow> string \<Rightarrow> db \<Rightarrow> file_row option" where
  "select_file cols v s =
     (if known_columns files_columns (''id'' # cols)
      then single_row (filter (\<lambda>f. file_id f = v) (files s))
      else None)"

text \<open>
  What the handlers expect of a royalty chain row: \<open>member_id\<close>,
  \<open>share_basis_points\<close> and \<open>position\<close>.
\<close>

record chain_entry =
  member_id :: string
  share_basis_points :: int
  position :: int

text \<open>The integer columns of a royalty row, by column name.\<close>

definition royalty_int_column :: "string \<Rightarrow> royalty_row \<Rightarrow> int option" where
  "royalty_int_column c r = (if c = ''amount_cents'' then Some (royalty_amount_cents r) else None)"

definition chain_entry_of :: "royalty_row \<Rightarrow> chain_entry list" where
  "chain_entry_of r =
     (case (royalty_int_column ''share_basis_points'' r, royalty_int_column ''position'' r) of
        (Some b, Some p) \<Rightarrow> [\<lparr>member_id = royalty_member_id r, share_basis_points = b, position = p\<rparr>]
      | _ \<Rightarrow> [])"

text \<open>
  \<open>from("file_royalty_chain").select("member_id, share_basis_points, position")
  .eq("file_id", f).order("position")\<close>; \<open>None\<close> is a query error.
\<close>

definition select_royalty_chain :: "string \<Rightarrow> db \<Rightarrow> chain_entry list option" where
  "select_royalty_chain f s =
     (if known_columns file_royalty_chain_columns
           [''member_id'', ''share_basis_points'', ''position'', ''file_id'']
      then Some (sort_key position
             (concat (map chain_entry_of (filter (\<lambda>r. royalty_file_id r = f) (file_royalty_chain s)))))
      else None)"

text \<open>\<open>from("orders").update(...).eq("id", i)\<close>\<close>

definition update_orders :: "string \<Rightarrow> (order_row \<Rightarrow> order_row) \<Rightarrow> db \<Rightarrow> db" where
  "update_orders i f s = s\<lparr>orders := map (\<lambda>r. if order_id r = i then f r else r) (orders s)\<rparr>"

text \<open>
  \<open>from("override_controls").update({ enabled, updated_at }).eq("feature_key", k)\<close>
  of \<open>admin-overrides\<close>.
\<close>

definition update_override_controls :: "string \<Rightarrow> bool \<Rightarrow> db \<Rightarrow> db" where
  "update_override_controls k b s =
     s\<lparr>override_controls :=
         map (\<lambda>c. if feature_key c = k then c\<lparr>enabled := b\<rparr> else c) (override_controls s)\<rparr>"

record response =
  status :: nat
  body :: string

definition respond :: "nat \<Rightarrow> string \<Rightarrow> response" where
  "respond c b = \<lparr>status = c, body = b\<rparr>"

record auth_user =
  user_id :: string
  email :: "string option"

text \<open>JavaScript's \<open>!v\<close> on a value that is a string, null or undefined.\<close>

definition falsy :: "string option \<Rightarrow> bool" where
  "falsy v = (case v of None \<Rightarrow> True | Some x \<Rightarrow> x = [])"

text \<open>JavaScript's \<open>v ?? 0\<close> on a nullable integer column.\<close>

definition or_zero :: "int option \<Rightarrow> int" where
  "or_zero v = (case v of None \<Rightarrow> 0 | Some n \<Rightarrow> n)"

section \<open>create-checkout\<close>

definition isPurchaseEnabled :: "db \<Rightarrow> bool" where
  "isPurchaseEnabled s =
     (if known_columns override_controls_columns [''enabled'', ''feature_key'']
      then (case single_row (filter (\<lambda>c. feature_key c = ''marketplace_purchase'') (override_controls s)) of
              None \<Rightarrow> False
            | Some d \<Rightarrow> enabled d)
      else False)"

record priced_entry = chain_entry +
  amount_cents :: number

record pricing =
  pricing_total_cents :: number
  pricing_pif_fee_cents :: number
  pricing_base_price_cents :: number
  pricing_payouts :: "priced_entry list"

definition calculatePricing :: "number \<Rightarrow> chain_entry list \<Rightarrow> pricing" where
  "calculatePricing priceCents royaltyChain =
     (let totalCents = Math_round (js_mul priceCents pifFeeMultiplier);
          pifFeeCents = js_sub totalCents priceCents;
          payouts = map (\<lambda>entry.
              \<lparr>member_id = member_id entry,
               share_basis_points = share_basis_points entry,
               position = position entry,
               amount_cents =
                 Math_round (js_div (js_mul priceCents (of_int (share_basis_points entry))) 10000)\<rparr>)
            royaltyChain
      in \<lparr>pricing_total_cents = totalCents,
          pricing_pif_fee_cents = pifFeeCents,
          pricing_base_price_cents = priceCents,
          pricing_payouts = payouts\<rparr>)"

text \<open>
  A request carries what the handler reads from its environment: the parsed JSON body
  (\<open>None\<close> when \<open>req.json()\<close> throws), the two values of \<open>crypto.randomUUID()\<close>,
  and whether the database reports an error of its own (a lost connection, say) for
  the royalty query and for the insert. The insert names the columns \<open>id\<close>,
  \<open>file_id\<close>, \<open>buyer_email\<close>, \<open>stripe_session_id\<close>, \<open>payment_status\<close>,
  \<open>total_cents\<close> and \<open>pif_fee_cents\<close>.
\<close>

record checkout_request =
  cc_method :: string
  cc_body :: "(string option \<times> string option) option"
  cc_session_uuid :: string
  cc_order_uuid :: string
  cc_royalty_error :: bool
  cc_order_error :: bool

definition create_checkout :: "checkout_request \<Rightarrow> db \<Rightarrow> response \<times> db" where
  "create_checkout req s =
     (if cc_method req = ''OPTIONS'' then (respond 200 ''ok'', s)
      else if cc_method req \<noteq> ''POST'' then (respond 405 ''Method not allowed'', s)
      else case cc_body req of
        None \<Rightarrow> (respond 500 ''Internal server error'', s)
      | Some (fid_opt, email_opt) \<Rightarrow>
          if falsy fid_opt \<or> falsy email_opt
          then (respond 400 ''Missing required fields: file_id, buyer_email'', s)
          else case (fid_opt, email_opt) of
            (Some fid, Some bemail) \<Rightarrow>
              if \<not> isPurchaseEnabled s
              then (respond 403 ''Marketplace purchases are currently disabled'', s)
              else (case select_file [''id'', ''title'', ''price_cents'', ''stage'', ''uploader_id''] fid s of
                None \<Rightarrow> (respond 404 ''File not found'', s)
              | Some fileRow \<Rightarrow>
                  if stage fileRow \<noteq> ''listed''
                  then (respond 422 ''File is not currently listed for sale'', s)
                  else (case (if cc_royalty_error req then None else select_royalty_chain fid s) of
                    None \<Rightarrow> (respond 500 ''Royalty chain not configured for this file'', s)
                  | Some royaltyChain \<Rightarrow>
                      if royaltyChain = []
                      then (respond 500 ''Royalty chain not configured for this file'', s)
                      else let pricing = calculatePricing (of_int (price_cents fileRow)) royaltyChain;
                               mockSessionId = ''cs_test_'' @ cc_session_uuid req;
                               checkoutUrl = ''https://checkout.stripe.com/pay/'' @ mockSessionId;
                               orderError = (cc_order_error req
                                 \<or> \<not> insert_accepted orders_columns orders_required
                                       [''id'', ''file_id'', ''buyer_email'', ''stripe_session_id'',
                                        ''payment_status'', ''total_cents'', ''pif_fee_cents''])
                        in if orderError
                           then (respond 500 ''Failed to create order'', s)
                           else (respond 200 checkoutUrl,
                                 s\<lparr>orders := orders s @
                                   [\<lparr>order_id = cc_order_uuid req,
                                     order_file_id = fid,
                                     buyer_email = bemail,
                                     stripe_checkout_session_id = None,
                                     payment_status = Pending,
                                     total_cents = pricing_total_cents pricing,
                                     pif_fee_cents = pricing_pif_fee_cents pricing,
                                     download_token = None,
                                     download_expires_at = None,
                                     downloaded_at = None,
                                     download_attempts = Some 0,
                                     delivery_email_retries = Some 0,
                                     paid_at = None\<rparr>]\<rparr>)))
          | _ \<Rightarrow> (respond 400 ''Missing required fields: file_id, buyer_email'', s))"

section \<open>stripe-webhook\<close>

record session_metadata =
  md_file_id :: "string option"
  md_buyer_email :: "string option"

record stripe_object =
  so_id :: string
  so_metadata :: "session_metadata option"

record stripe_event =
  ev_type :: "string option"
  ev_object :: "stripe_object option"

text \<open>
  The request carries the \<open>Stripe-Signature\<close> header, the result of \<open>JSON.parse\<close>
  on the body (\<open>None\<close> when parsing throws or yields a falsy value), the token from
  \<open>crypto.randomUUID()\<close>, the two clock readings of \<open>handleCheckoutCompleted\<close>, and
  whether the database reports an error of its own for the order update, the royalty
  query and the payout insert.
\<close>

record webhook_request =
  wh_method :: string
  wh_signature :: "string option"
  wh_event :: "stripe_event option"
  wh_uuid :: string
  wh_now :: int
  wh_paid_now :: int
  wh_update_error :: bool
  wh_royalty_error :: bool
  wh_payout_error :: bool

definition verifyStripeSignature :: "webhook_request \<Rightarrow> stripe_event option" where
  "verifyStripeSignature req = (if falsy (wh_signature req) then None else wh_event req)"

text \<open>The payout rows \<open>handleCheckoutCompleted\<close> builds for an order and a royalty chain.\<close>

definition payoutRows :: "order_row \<Rightarrow> chain_entry list \<Rightarrow> payout_row list" where
  "payoutRows order royaltyChain =
     (let basePriceCents = js_sub (total_cents order) (pif_fee_cents order)
      in map (\<lambda>entry.
           \<lparr>payout_order_id = order_id order,
            payout_member_id = member_id entry,
            payout_amount_cents =
              Math_round (js_div (js_mul basePriceCents (of_int (share_basis_points entry))) 10000),
            payout_status = ''pending''\<rparr>) royaltyChain)"

definition handleCheckoutCompleted :: "webhook_request \<Rightarrow> stripe_object \<Rightarrow> db \<Rightarrow> response \<times> db" where
  "handleCheckoutCompleted req session s =
     (let sessionId = so_id session;
          fileId = (case so_metadata session of None \<Rightarrow> None | Some m \<Rightarrow> md_file_id m);
          buyerEmail = (case so_metadata session of None \<Rightarrow> None | Some m \<Rightarrow> md_buyer_email m)
      in case (fileId, buyerEmail) of
        (Some fid, Some bemail) \<Rightarrow>
          if fid = [] \<or> bemail = [] then (respond 400 ''Missing metadata'', s)
          else (case select_order [''id'', ''file_id'', ''total_cents'', ''pif_fee_cents'']
                       ''stripe_session_id'' sessionId s of
            None \<Rightarrow> (respond 404 ''Order not found'', s)
          | Some order \<Rightarrow>
              let downloadToken = wh_uuid req;
                  downloadExpiresAt = wh_now req + 72 * 60 * 60 * 1000;
                  updateError = (wh_update_error req
                    \<or> \<not> known_columns orders_columns
                          [''payment_status'', ''download_token'', ''download_expires_at'',
                           ''paid_at'', ''id''])
              in if updateError then (respond 500 ''Failed to update order'', s)
                 else let s1 = update_orders (order_id order)
                               (\<lambda>r. r\<lparr>payment_status := Paid,
                                       download_token := Some downloadToken,
                                       download_expires_at := Some downloadExpiresAt,
                                       paid_at := Some (wh_paid_now req)\<rparr>) s;
                          royaltyChain = (if wh_royalty_error req then None
                                          else select_royalty_chain fid s1);
                          payoutError = (wh_payout_error req
                            \<or> \<not> insert_accepted payouts_columns payouts_required
                                  [''order_id'', ''member_id'', ''amount_cents'', ''status'']);
                          s2 = (case royaltyChain of
                                  None \<Rightarrow> s1
                                | Some chain \<Rightarrow>
                                    if chain \<noteq> [] then
                                      if payoutError then s1
                                      else s1\<lparr>payouts := payouts s1 @ payoutRows order chain\<rparr>
                                    else s1)
                      in (respond 200 ''received'', s2))
      | _ \<Rightarrow> (respond 400 ''Missing metadata'', s))"

definition handlePaymentFailed :: "stripe_object \<Rightarrow> db \<Rightarrow> response \<times> db" where
  "handlePaymentFailed paymentIntent s = (respond 200 ''received'', s)"

definition stripe_webhook :: "webhook_request \<Rightarrow> db \<Rightarrow> response \<times> db" where
  "stripe_webhook req s =
     (if wh_method req = ''OPTIONS'' then (respond 200 ''ok'', s)
      else if wh_method req \<noteq> ''POST'' then (respond 405 ''Method not allowed'', s)
      else case verifyStripeSignature req of
        None \<Rightarrow> (respond 401 ''Invalid webhook signature'', s)
      | Some event \<Rightarrow>
          if ev_type event = Some ''checkout.session.completed'' then
            (case ev_object event of
               None \<Rightarrow> (respond 500 ''Internal server error'', s)
             | Some eventData \<Rightarrow> handleCheckoutCompleted req eventData s)
          else if ev_type event = Some ''payment_intent.payment_failed'' then
            (case ev_object event of
               None \<Rightarrow> (respond 500 ''Internal server error'', s)
             | Some eventData \<Rightarrow> handlePaymentFailed eventData s)
          else (respond 200 ''received, not handled'', s))"

section \<open>resend-download\<close>

definition MAX_DELIVERY_RETRIES :: int where
  "MAX_DELIVERY_RETRIES = 5"

definition DOWNLOAD_TOKEN_TTL_MS :: int where
  "DOWNLOAD_TOKEN_TTL_MS = 72 * 60 * 60 * 1000"

text \<open>
  The request carries the user \<open>getAuthUser\<close> finds (\<open>None\<close> without a valid bearer
  token), the \<open>order_id\<close> of the parsed body (outer \<open>None\<close> when \<open>req.json()\<close>
  throws), the fresh token, the clock reading, and whether the database reports an
  error of its own for the update.
\<close>

record resend_request =
  rs_method :: string
  rs_user :: "auth_user option"
  rs_body :: "string option option"
  rs_uuid :: string
  rs_now :: int
  rs_update_error :: bool

definition resend_download :: "resend_request \<Rightarrow> db \<Rightarrow> response \<times> db" where
  "resend_download req s =
     (if rs_method req = ''OPTIONS'' then (respond 200 ''ok'', s)
      else if rs_method req \<noteq> ''POST'' then (respond 405 ''Method not allowed'', s)
      else case rs_user req of
        None \<Rightarrow> (respond 401 ''Unauthorized'', s)
      | Some user \<Rightarrow>
          (case rs_body req of
             None \<Rightarrow> (respond 500 ''Internal server error'', s)
           | Some oid_opt \<Rightarrow>
               (case oid_opt of
                  None \<Rightarrow> (respond 400 ''Missing required field: order_id'', s)
                | Some oid \<Rightarrow>
                    if oid = [] then (respond 400 ''Missing required field: order_id'', s)
                    else (case select_order
                                 [''id'', ''file_id'', ''buyer_email'', ''payment_status'',
                                  ''delivery_email_retries''] ''id'' oid s of
                      None \<Rightarrow> (respond 404 ''Order not found'', s)
                    | Some order \<Rightarrow>
                        if email user \<noteq> Some (buyer_email order)
                        then (respond 403 ''You are not the buyer of this order'', s)
                        else if payment_status order \<noteq> Paid
                        then (respond 422 ''Order has not been paid'', s)
                        else let retries = or_zero (delivery_email_retries order)
                          in if retries \<ge> MAX_DELIVERY_RETRIES
                             then (respond 429 ''Maximum delivery email retries exceeded'', s)
                             else let newDownloadToken = rs_uuid req;
                                      newExpiresAt = rs_now req + DOWNLOAD_TOKEN_TTL_MS;
                                      updateError = (rs_update_error req
                                        \<or> \<not> known_columns orders_columns
                                              [''download_token'', ''download_expires_at'',
                                               ''delivery_email_retries'', ''id''])
                               in if updateError
                                  then (respond 500 ''Failed to generate new download link'', s)
                                  else (respond 200 ''success'',
                                        update_orders (order_id order)
                                          (\<lambda>r. r\<lparr>download_token := Some newDownloadToken,
                                                  download_expires_at := Some newExpiresAt,
                                                  delivery_email_retries := Some (retries + 1)\<rparr>) s)))))"

section \<open>download\<close>

text \<open>
  The request carries the \<open>token\<close> query parameter, the user \<open>getAuthUser\<close> finds,
  the clock reading, and whether the database reports an error of its own for the
  tracking update.
\<close>

record download_request =
  dl_method :: string
  dl_token :: "string option"
  dl_user :: "auth_user option"
  dl_now :: int
  dl_track_error :: bool

definition download :: "download_request \<Rightarrow> db \<Rightarrow> response \<times> db" where
  "download req s =
     (if dl_method req = ''OPTIONS'' then (respond 200 ''ok'', s)
      else if dl_method req \<noteq> ''GET'' then (respond 405 ''Method not allowed'', s)
      else case dl_token req of
        None \<Rightarrow> (respond 400 ''Missing required query parameter: token'', s)
      | Some token \<Rightarrow>
          if token = [] then (respond 400 ''Missing required query parameter: token'', s)
          else (case select_order
                       [''id'', ''file_id'', ''payment_status'', ''download_expires_at'',
                        ''download_attempts'', ''buyer_email'', ''downloaded_at'']
                       ''download_token'' token s of
            None \<Rightarrow> (respond 404 ''Invalid or expired download token'', s)
          | Some order \<Rightarrow>
              if payment_status order \<noteq> Paid
              then (respond 403 ''Payment has not been completed for this order'', s)
              else let now = dl_now req;
                       isExpired = (case download_expires_at order of
                                      None \<Rightarrow> False
                                    | Some expiresAt \<Rightarrow> now > expiresAt);
                       isOwner = (case dl_user req of
                                    None \<Rightarrow> False
                                  | Some user \<Rightarrow> email user = Some (buyer_email order))
                in if isExpired \<and> \<not> isOwner
                   then (respond 410 ''Download link has expired. Sign in and request a new link.'', s)
                   else (case select_file [''storage_path'', ''title''] (order_file_id order) s of
                     None \<Rightarrow> (respond 404 ''File record not found'', s)
                   | Some fileRow \<Rightarrow>
                       let signedUrl =
                             ''https://placeholder.supabase.co/storage/v1/object/sign/marketplace-files/''
                               @ storage_path fileRow @ ''?token=PLACEHOLDER'';
                           attempts = or_zero (download_attempts order);
                           trackError = (dl_track_error req
                             \<or> \<not> known_columns orders_columns
                                   [''downloaded_at'', ''download_attempts'', ''id'']);
                           s1 = (if trackError then s
                                 else update_orders (order_id order)
                                        (\<lambda>r. r\<lparr>downloaded_at := Some now,
                                                download_attempts := Some (attempts + 1)\<rparr>) s)
                       in (respond 302 signedUrl, s1))))"

section \<open>Sequences of requests\<close>

datatype request =
    CreateCheckout checkout_request
  | StripeWebhook webhook_request
  | ResendDownload resend_request
  | Download download_request

fun serve :: "request \<Rightarrow> db \<Rightarrow> response \<times> db" where
  "serve (CreateCheckout r) s = create_checkout r s"
| "serve (StripeWebhook r) s = stripe_webhook r s"
| "serve (ResendDownload r) s = resend_download r s"
| "serve (Download r) s = download r s"

fun run :: "request list \<Rightarrow> db \<Rightarrow> db" where
  "run [] s = s"
| "run (r # rs) s = run rs (snd (serve r s))"

fun statuses :: "request list \<Rightarrow> db \<Rightarrow> nat list" where
  "statuses [] s = []"
| "statuses (r # rs) s = status (fst (serve r s)) # statuses rs (snd (serve r s))"

section \<open>Example data\<close>

text \<open>
  A small database: the master switch is off, purchases are on, one listed file of
  500 cents with its originator's royalty row, and one pending order for it.
\<close>

definition example_order :: order_row where
  "example_order =
     \<lparr>order_id = ''o1'', order_file_id = ''f1'', buyer_email = ''buyer@example.org'',
      stripe_checkout_session_id = Some ''cs_test_a'', payment_status = Pending,
      total_cents = 550, pif_fee_cents = 50,
      download_token = None, download_expires_at = None, downloaded_at = None,
      download_attempts = Some 0, delivery_email_retries = Some 0, paid_at = None\<rparr>"

definition example_db :: db where
  "example_db =
     \<lparr>override_controls =
        [\<lparr>feature_key = ''master_switch'', enabled = False\<rparr>,
         \<lparr>feature_key = ''marketplace_purchase'', enabled = True\<rparr>],
      files =
        [\<lparr>file_id = ''f1'', title = ''Chair'', price_cents = 500, stage = ''listed'',
          storage_path = ''u1/f1/chair.dxf''\<rparr>],
      file_royalty_chain =
        [\<lparr>royalty_file_id = ''f1'', royalty_role = ''originator'', royalty_member_id = ''m1'',
          royalty_amount_cents = 500\<rparr>],
      orders = [example_order],
      payouts = []\<rparr>"

definition example_checkout_request :: checkout_request where
  "example_checkout_request =
     \<lparr>cc_method = ''POST'', cc_body = Some (Some ''f1'', Some ''buyer@example.org''),
      cc_session_uuid = ''uuid-1'', cc_order_uuid = ''uuid-2'',
      cc_royalty_error = False, cc_order_error = False\<rparr>"

definition example_webhook_request :: "string \<Rightarrow> string \<Rightarrow> int \<Rightarrow> webhook_request" where
  "example_webhook_request ty tok t =
     \<lparr>wh_method = ''POST'', wh_signature = Some ''t=1,v1=abc'',
      wh_event = Some \<lparr>ev_type = Some ty,
                       ev_object = Some \<lparr>so_id = ''cs_test_a'',
                         so_metadata = Some \<lparr>md_file_id = Some ''f1'',
                                               md_buyer_email = Some ''buyer@example.org''\<rparr>\<rparr>\<rparr>,
      wh_uuid = tok, wh_now = t, wh_paid_now = t + 1,
      wh_update_error = False, wh_royalty_error = False, wh_payout_error = False\<rparr>"

text \<open>The same order after payment, and requests of its buyer.\<close>

definition example_paid_order :: order_row where
  "example_paid_order =
     example_order\<lparr>payment_status := Paid, download_token := Some ''tok-0'',
                     download_expires_at := Some 259201000, paid_at := Some 1001\<rparr>"

definition example_paid_db :: db where
  "example_paid_db = example_db\<lparr>orders := [example_paid_order]\<rparr>"

definition example_resend_request :: "string \<Rightarrow> int \<Rightarrow> resend_request" where
  "example_resend_request tok t =
     \<lparr>rs_method = ''POST'',
      rs_user = Some \<lparr>user_id = ''u9'', email = Some ''buyer@example.org''\<rparr>,
      rs_body = Some (Some ''o1''), rs_uuid = tok, rs_now = t, rs_update_error = False\<rparr>"

definition example_download_request :: "auth_user option \<Rightarrow> download_request" where
  "example_download_request u =
     \<lparr>dl_method = ''GET'', dl_token = Some ''tok-0'', dl_user = u,
      dl_now = 300000000, dl_track_error = False\<rparr>"

section \<open>Order invariants\<close>

text \<open>
  A download token is present only on a paid order, and a paid order has both its
  payment time and a token.
\<close>

definition credential_invariant :: "order_row \<Rightarrow> bool" where
  "credential_invariant r \<longleftrightarrow>
     (download_token r \<noteq> None \<longrightarrow> payment_status r = Paid)
     \<and> (payment_status r = Paid \<longrightarrow> paid_at r \<noteq> None \<and> download_token r \<noteq> None)"

definition db_invariant :: "db \<Rightarrow> bool" where
  "db_invariant s \<longleftrightarrow> (\<forall>r \<in> set (orders s). credential_invariant r)"

text \<open>
  Between two states of the orders table: every row is still at its place with its
  id, and a row that was paid is paid.
\<close>

definition paid_kept :: "db \<Rightarrow> db \<Rightarrow> bool" where
  "paid_kept s s' \<longleftrightarrow>
     length (orders s) \<le> length (orders s')
     \<and> (\<forall>i < length (orders s).
           order_id (orders s' ! i) = order_id (orders s ! i)
           \<and> (payment_status (orders s ! i) = Paid \<longrightarrow> payment_status (orders s' ! i) = Paid))"

section \<open>Rounding lemmas\<close>

lemma bitlen_pos: "0 < n \<Longrightarrow> 0 < bitlen n"
  using bitlen_bounds [of n] bitlen_nonneg [of n]
  by (cases "bitlen n = 0") auto

lemma binexp_lower:
  assumes "0 < x"
  shows "2 powi (binexp x) \<le> x"
proof (cases "1 \<le> x")
  case True
  define n where "n = \<lfloor>x\<rfloor>"
  have n: "0 < n" using True by (simp add: n_def)
  from bitlen_bounds [OF n] have "2 ^ nat (bitlen n - 1) \<le> n" by simp
  then have "(of_int (2 ^ nat (bitlen n - 1)) :: rat) \<le> of_int n"
    by (simp only: of_int_le_iff)
  also have "\<dots> \<le> x" by (simp add: n_def)
  finally have "(2 :: rat) ^ nat (bitlen n - 1) \<le> x" by simp
  moreover have "0 \<le> bitlen n - 1" using bitlen_pos [OF n] by simp
  ultimately show ?thesis using True
    by (simp add: binexp_def n_def power_int_def)
next
  case False
  define c where "c = \<lceil>1 / x\<rceil>"
  have inv: "1 < 1 / x" using False assms by simp
  then have c2: "2 \<le> c" unfolding c_def by (simp add: le_ceiling_iff)
  then have m: "0 < c - 1" by simp
  define k where "k = bitlen (c - 1)"
  have kpos: "0 < k" unfolding k_def by (rule bitlen_pos [OF m])
  from bitlen_bounds [OF m] have "c - 1 < 2 ^ nat k" by (simp add: k_def)
  then have "c \<le> 2 ^ nat k" by simp
  then have "(of_int c :: rat) \<le> of_int (2 ^ nat k)" by (simp only: of_int_le_iff)
  then have "(of_int c :: rat) \<le> 2 ^ nat k" by simp
  moreover have "1 / x \<le> of_int c" by (simp add: c_def)
  ultimately have "1 / x \<le> 2 ^ nat k" by linarith
  then have "1 \<le> 2 ^ nat k * x" using assms by (simp add: field_simps)
  then have "inverse 2 ^ nat k \<le> x"
    by (simp add: power_inverse field_simps)
  then show ?thesis using False kpos
    by (simp add: binexp_def k_def c_def power_int_def)
qed

lemma binexp_upper:
  assumes "0 < x"
  shows "x < 2 powi (binexp x + 1)"
proof (cases "1 \<le> x")
  case True
  define n where "n = \<lfloor>x\<rfloor>"
  have n: "0 < n" using True by (simp add: n_def)
  from bitlen_bounds [OF n] have "n + 1 \<le> 2 ^ nat (bitlen n)" by simp
  then have "(of_int (n + 1) :: rat) \<le> of_int (2 ^ nat (bitlen n))"
    by (simp only: of_int_le_iff)
  then have "(of_int n + 1 :: rat) \<le> 2 ^ nat (bitlen n)" by simp
  moreover have "x < of_int n + 1" unfolding n_def by linarith
  ultimately have "x < 2 ^ nat (bitlen n)" by linarith
  moreover have "0 \<le> bitlen n" using bitlen_pos [OF n] by simp
  ultimately show ?thesis using True
    by (simp add: binexp_def n_def power_int_def)
next
  case False
  define c where "c = \<lceil>1 / x\<rceil>"
  have inv: "1 < 1 / x" using False assms by simp
  then have c2: "2 \<le> c" unfolding c_def by (simp add: le_ceiling_iff)
  then have m: "0 < c - 1" by simp
  define k where "k = bitlen (c - 1)"
  have kpos: "0 < k" unfolding k_def by (rule bitlen_pos [OF m])
  from bitlen_bounds [OF m] have "2 ^ nat (k - 1) \<le> c - 1" by (simp add: k_def)
  then have "(of_int (2 ^ nat (k - 1)) :: rat) \<le> of_int (c - 1)" by (simp only: of_int_le_iff)
  then have "(2 :: rat) ^ nat (k - 1) \<le> of_int c - 1" by simp
  moreover have "of_int c - 1 < 1 / x" unfolding c_def by linarith
  ultimately have "2 ^ nat (k - 1) < 1 / x" by linarith
  then have "2 ^ nat (k - 1) * x < 1" using assms by (simp add: field_simps)
  then have lt: "x < inverse 2 ^ nat (k - 1)"
    by (simp add: power_inverse field_simps)
  show ?thesis
  proof (cases "k = 1")
    case True
    then show ?thesis using False by (simp add: binexp_def k_def c_def)
  next
    case neq: False
    then have "nat (k - 1) = nat (- (1 - k))" "\<not> 0 \<le> 1 - k" using kpos by auto
    then show ?thesis using lt False kpos
      by (simp add: binexp_def k_def c_def power_int_def)
  qed
qed

lemma binexp_less:
  assumes "0 < x" and "x < 2 powi k"
  shows "binexp x < k"
proof (rule ccontr)
  assume "\<not> binexp x < k"
  then have "k \<le> binexp x" by simp
  then have "(2 :: rat) powi k \<le> 2 powi binexp x"
    by (intro power_int_increasing) simp_all
  with binexp_lower [OF assms(1)] assms(2) show False by linarith
qed

lemma roundTiesToEven_bounds: "\<lfloor>q\<rfloor> \<le> roundTiesToEven q \<and> roundTiesToEven q \<le> \<lceil>q\<rceil>"
proof -
  have "q = of_int \<lfloor>q\<rfloor> \<or> \<lceil>q\<rceil> = \<lfloor>q\<rfloor> + 1"
    by (metis ceiling_altdef)
  then show ?thesis
    by (auto simp add: roundTiesToEven_def Let_def)
qed

text \<open>
  Rounding never crosses a value of the grid of the argument's binade: such a value
  is itself representable.
\<close>

lemma fl_grid:
  assumes "0 < x" and "y = of_int n * 2 powi (binexp x - 52)"
  shows "(y \<le> x \<longrightarrow> y \<le> fl x) \<and> (x \<le> y \<longrightarrow> fl x \<le> y)"
proof -
  define u :: rat where "u = 2 powi (binexp x - 52)"
  have u: "0 < u" by (simp add: u_def)
  have flx: "fl x = of_int (roundTiesToEven (x / u)) * u"
    using assms(1) by (simp add: fl_def u_def Let_def)
  have y: "y = of_int n * u" by (simp add: assms(2) u_def)
  show ?thesis
  proof (intro conjI impI)
    assume "y \<le> x"
    then have "of_int n \<le> x / u" using u by (simp add: y field_simps)
    then have "n \<le> \<lfloor>x / u\<rfloor>" by (simp add: le_floor_iff)
    with roundTiesToEven_bounds [of "x / u"] have "n \<le> roundTiesToEven (x / u)" by linarith
    then have "(of_int n :: rat) \<le> of_int (roundTiesToEven (x / u))" by (simp only: of_int_le_iff)
    then show "y \<le> fl x" using u by (simp add: y flx)
  next
    assume "x \<le> y"
    then have "x / u \<le> of_int n" using u by (simp add: y field_simps)
    then have "\<lceil>x / u\<rceil> \<le> n" by (simp add: ceiling_le_iff)
    with roundTiesToEven_bounds [of "x / u"] have "roundTiesToEven (x / u) \<le> n" by linarith
    then have "(of_int (roundTiesToEven (x / u)) :: rat) \<le> of_int n" by (simp only: of_int_le_iff)
    then show "fl x \<le> y" using u by (simp add: y flx)
  qed
qed

lemma grid_refine:
  assumes "e < k"
  shows "of_int i * (2 :: rat) powi (k - 53) = of_int (i * 2 ^ nat (k - 1 - e)) * 2 powi (e - 52)"
proof -
  have "(2 :: rat) powi (k - 53) = 2 powi (int (nat (k - 1 - e)) + (e - 52))"
    using assms by simp
  also have "\<dots> = 2 powi (int (nat (k - 1 - e))) * 2 powi (e - 52)"
    by (rule power_int_add) simp
  also have "\<dots> = 2 ^ nat (k - 1 - e) * 2 powi (e - 52)"
    by (simp only: power_int_of_nat)
  finally show ?thesis by simp
qed

lemma fl_between:
  assumes "0 < x" and "x < 2 powi k"
    and "a = of_int i * 2 powi (k - 53)" and "b = of_int j * 2 powi (k - 53)"
    and "a \<le> x" and "x \<le> b"
  shows "a \<le> fl x \<and> fl x \<le> b"
proof -
  have e: "binexp x < k" by (rule binexp_less [OF assms(1,2)])
  have "a = of_int (i * 2 ^ nat (k - 1 - binexp x)) * 2 powi (binexp x - 52)"
    unfolding assms(3) by (rule grid_refine [OF e])
  from fl_grid [OF assms(1) this] assms(5) have 1: "a \<le> fl x" by simp
  have "b = of_int (j * 2 ^ nat (k - 1 - binexp x)) * 2 powi (binexp x - 52)"
    unfolding assms(4) by (rule grid_refine [OF e])
  from fl_grid [OF assms(1) this] assms(6) have 2: "fl x \<le> b" by simp
  from 1 2 show ?thesis ..
qed

lemma fl_of_int:
  assumes "0 \<le> n" and "n < 2 ^ 53"
  shows "fl (of_int n) = of_int n"
proof (cases "n = 0")
  case True
  then show ?thesis by (simp add: fl_def)
next
  case False
  with assms have pos: "(0 :: rat) < of_int n" by simp
  have "(of_int n :: rat) < of_int (2 ^ 53)" using assms(2) by (simp only: of_int_less_iff)
  then have lt: "(of_int n :: rat) < 2 powi 53" by simp
  have g: "(of_int n :: rat) = of_int n * 2 powi (53 - 53)" by simp
  from fl_between [OF pos lt g g] show ?thesis by simp
qed

text \<open>
  Below \<open>2^32\<close> the grid is at least as fine as \<open>2^-21\<close>, so \<open>Math.round\<close> of a
  rounded value is the integer whose half-open unit interval holds the exact value,
  as long as the exact value keeps \<open>2^-21\<close> away from the upper end.
\<close>

lemma Math_round_fl:
  assumes "0 \<le> x" and "x < 2 ^ 32"
    and lo: "of_int t - 1 / 2 \<le> x" and hi: "x \<le> of_int t + 1 / 2 - 1 / 2 ^ 21"
  shows "Math_round (fl x) = of_int t"
proof (cases "x = 0")
  case True
  with lo hi have "(of_int t :: rat) \<le> 1 / 2" "- 1 / 2 < (of_int t :: rat)" by simp_all
  then have "t < 1" "- 1 < t" by linarith+
  then have "t = 0" by simp
  have "\<lfloor>1 / 2 :: rat\<rfloor> = 0" by (simp add: floor_unique)
  with True \<open>t = 0\<close> show ?thesis by (simp add: fl_def Math_round_def)
next
  case False
  with assms(1) have pos: "0 < x" by simp
  have lt: "x < 2 powi 32" using assms(2) by simp
  have a: "of_int t - 1 / 2 = of_int ((2 * t - 1) * 2 ^ 20) * (2 :: rat) powi (32 - 53)"
    by (simp add: power_int_def field_simps)
  have b: "of_int t + 1 / 2 - 1 / 2 ^ 21 = of_int ((2 * t + 1) * 2 ^ 20 - 1) * (2 :: rat) powi (32 - 53)"
    by (simp add: power_int_def field_simps)
  from fl_between [OF pos lt a b lo hi]
  have "of_int t \<le> fl x + 1 / 2" "fl x + 1 / 2 < of_int t + 1" by simp_all
  then have "\<lfloor>fl x + 1 / 2\<rfloor> = t" by (simp add: floor_unique)
  then show ?thesis by (simp add: Math_round_def)
qed

lemma div_bounds:
  fixes d n :: int
  assumes "0 < d"
  shows "d * (n div d) \<le> n \<and> n \<le> d * (n div d) + (d - 1)"
proof -
  have "n = d * (n div d) + n mod d" by simp
  moreover have "0 \<le> n mod d" "n mod d < d" using assms by simp_all
  ultimately show ?thesis by linarith
qed

lemma total_exact:
  assumes "0 \<le> p" and "p < 2 ^ 31"
  shows "Math_round (js_mul (of_int p) pifFeeMultiplier) = of_int ((11 * p + 5) div 10)"
proof -
  define t where "t = (11 * p + 5) div 10"
  define x :: rat where "x = of_int p * pifFeeMultiplier"
  have "10 * t \<le> 11 * p + 5" "11 * p + 5 \<le> 10 * t + 9"
    using div_bounds [of 10 "11 * p + 5"] by (simp_all add: t_def)
  then have "(of_int (10 * t) :: rat) \<le> of_int (11 * p + 5)"
    "(of_int (11 * p + 5) :: rat) \<le> of_int (10 * t + 9)" by (simp_all only: of_int_le_iff)
  then have t: "10 * (of_int t :: rat) \<le> 11 * of_int p + 5"
    "11 * (of_int p :: rat) + 5 \<le> 10 * of_int t + 9" by simp_all
  have "(of_int p :: rat) < of_int (2 ^ 31)" using assms(2) by (simp only: of_int_less_iff)
  then have p: "(0 :: rat) \<le> of_int p" "(of_int p :: rat) < 2147483648" using assms(1) by simp_all
  have x: "x = of_int p * 4953959590107546 / 4503599627370496"
    by (simp add: x_def pifFeeMultiplier_def)
  have "Math_round (fl x) = of_int t"
  proof (rule Math_round_fl)
    show "0 \<le> x" using p by (simp add: x)
    show "x < 2 ^ 32" using p by (simp add: x)
    show "of_int t - 1 / 2 \<le> x" using p t by (simp add: x)
    show "x \<le> of_int t + 1 / 2 - 1 / 2 ^ 21" using p t by (simp add: x)
  qed
  then show ?thesis by (simp add: js_mul_def x_def t_def)
qed

lemma payout_exact:
  assumes "0 \<le> p" and "0 \<le> s" and "p * s < 2 ^ 45"
  shows "Math_round (js_div (js_mul (of_int p) (of_int s)) 10000) = of_int ((p * s + 5000) div 10000)"
proof -
  define n where "n = p * s"
  define t where "t = (n + 5000) div 10000"
  define x :: rat where "x = of_int n / 10000"
  have n0: "0 \<le> n" using assms(1,2) by (simp add: n_def)
  have n1: "n < 2 ^ 45" using assms(3) by (simp add: n_def)
  have "fl (of_int n) = (of_int n :: rat)" using n0 n1 by (intro fl_of_int) simp_all
  then have mul: "js_mul (of_int p) (of_int s) = of_int n" by (simp add: js_mul_def n_def)
  have "10000 * t \<le> n + 5000" "n + 5000 \<le> 10000 * t + 9999"
    using div_bounds [of 10000 "n + 5000"] by (simp_all add: t_def)
  then have "(of_int (10000 * t) :: rat) \<le> of_int (n + 5000)"
    "(of_int (n + 5000) :: rat) \<le> of_int (10000 * t + 9999)" by (simp_all only: of_int_le_iff)
  then have t: "10000 * (of_int t :: rat) \<le> of_int n + 5000"
    "(of_int n :: rat) + 5000 \<le> 10000 * of_int t + 9999" by simp_all
  have "(of_int n :: rat) < of_int (2 ^ 45)" using n1 by (simp only: of_int_less_iff)
  then have n: "(0 :: rat) \<le> of_int n" "(of_int n :: rat) < 35184372088832" using n0 by simp_all
  have "Math_round (fl x) = of_int t"
  proof (rule Math_round_fl)
    show "0 \<le> x" using n by (simp add: x_def)
    show "x < 2 ^ 32" using n by (simp add: x_def)
    show "of_int t - 1 / 2 \<le> x" using n t by (simp add: x_def)
    show "x \<le> of_int t + 1 / 2 - 1 / 2 ^ 21" using n t by (simp add: x_def)
  qed
  then show ?thesis by (simp add: js_div_def mul x_def t_def n_def)
qed

lemma round_half_up_div:
  "round (of_int n / of_int d :: rat) = (2 * n + d) div (2 * d)"
proof (cases "d = 0")
  case True
  then show ?thesis by simp
next
  case False
  have "(of_int n / of_int d :: rat) + 1 / 2 = of_int (2 * n + d) / of_int (2 * d)"
    using False by (simp add: field_simps)
  then show ?thesis
    unfolding round_def by (simp only: floor_divide_of_int_eq)
qed

lemma round_total: "round (of_int p * 11 / 10 :: rat) = (11 * p + 5) div 10"
proof -
  have "(of_int p * 11 / 10 :: rat) = of_int (11 * p) / of_int 10" by simp
  then have "round (of_int p * 11 / 10 :: rat) = (2 * (11 * p) + 10) div (2 * 10)"
    by (simp only: round_half_up_div)
  also have "\<dots> = (2 * (11 * p + 5)) div (2 * 10)" by simp
  also have "\<dots> = (11 * p + 5) div 10" by (simp only: div_mult_mult1 [of 2])
  finally show ?thesis .
qed

lemma round_payout:
  "round (of_int p * of_int s / 10000 :: rat) = (p * s + 5000) div 10000"
proof -
  have "(of_int p * of_int s / 10000 :: rat) = of_int (p * s) / of_int 10000" by simp
  then have "round (of_int p * of_int s / 10000 :: rat) = (2 * (p * s) + 10000) div (2 * 10000)"
    by (simp only: round_half_up_div)
  also have "\<dots> = (2 * (p * s + 5000)) div (2 * 10000)" by simp
  also have "\<dots> = (p * s + 5000) div 10000" by (simp only: div_mult_mult1 [of 2])
  finally show ?thesis .
qed

section \<open>Pricing\<close>

lemma pricing_total:
  assumes "0 \<le> p" and "p < 2 ^ 31"
  shows "pricing_total_cents (calculatePricing (of_int p) chain) = of_int ((11 * p + 5) div 10)"
  using total_exact [OF assms] by (simp add: calculatePricing_def Let_def)

lemma pricing_fee:
  assumes "0 \<le> p" and "p < 2 ^ 31"
  shows "pricing_pif_fee_cents (calculatePricing (of_int p) chain) = of_int ((11 * p + 5) div 10 - p)"
proof -
  define t where "t = (11 * p + 5) div 10"
  have b: "10 * t \<le> 11 * p + 5" "11 * p + 5 \<le> 10 * t + 9"
    using div_bounds [of 10 "11 * p + 5"] by (simp_all add: t_def)
  have "0 \<le> t - p" using b assms by linarith
  moreover have "t - p < 2 ^ 53" using b assms by simp
  ultimately have "fl (of_int (t - p)) = (of_int (t - p) :: rat)" by (rule fl_of_int)
  then have "js_sub (of_int t) (of_int p) = of_int (t - p)" by (simp add: js_sub_def)
  then show ?thesis
    using total_exact [OF assms] by (simp add: calculatePricing_def Let_def t_def)
qed

lemma pricing_payouts_amounts:
  assumes "0 \<le> p" and "\<forall>e \<in> set chain. 0 \<le> share_basis_points e \<and> p * share_basis_points e < 2 ^ 45"
  shows "map amount_cents (pricing_payouts (calculatePricing (of_int p) chain))
       = map (\<lambda>e. of_int ((p * share_basis_points e + 5000) div 10000)) chain"
  using assms by (simp add: calculatePricing_def Let_def payout_exact)

lemma share_le_sum:
  fixes xs :: "int list"
  assumes "\<forall>x \<in> set xs. 0 \<le> x" and "x \<in> set xs"
  shows "x \<le> sum_list xs"
  using assms
proof (induction xs)
  case Nil
  then show ?case by simp
next
  case (Cons a xs)
  have "0 \<le> sum_list xs" using Cons.prems(1) by (intro sum_list_nonneg) simp
  then show ?case using Cons by auto
qed

lemma share_product_bound:
  fixes p s :: int
  assumes "0 \<le> p" and "p < 2 ^ 31" and "0 \<le> s" and "s \<le> 10000"
  shows "p * s < 2 ^ 45"
proof -
  have "p * s \<le> p * 10000" using assms by (intro mult_left_mono) simp_all
  also have "\<dots> < 2 ^ 45" using assms by simp
  finally show ?thesis .
qed

lemma rounded_sum_upper:
  "2 * (\<Sum>s\<leftarrow>xs. of_int (round (of_int p * of_int s / 10000 :: rat)))
     \<le> 2 * (of_int p * of_int (sum_list xs) / 10000) + (of_int (length xs) :: rat)"
proof (induction xs)
  case Nil
  then show ?case by simp
next
  case (Cons a xs)
  have "(of_int (round (of_int p * of_int a / 10000 :: rat)) :: rat) \<le> of_int p * of_int a / 10000 + 1 / 2"
    by (rule of_int_round_le)
  with Cons show ?case by (simp add: field_simps)
qed

lemma rounded_sum_lower:
  "2 * (of_int p * of_int (sum_list xs) / 10000) - (of_int (length xs) :: rat)
     \<le> 2 * (\<Sum>s\<leftarrow>xs. of_int (round (of_int p * of_int s / 10000 :: rat)))"
proof (induction xs)
  case Nil
  then show ?case by simp
next
  case (Cons a xs)
  have "of_int p * of_int a / 10000 - 1 / 2 \<le> (of_int (round (of_int p * of_int a / 10000 :: rat)) :: rat)"
    by (rule of_int_round_ge)
  with Cons show ?case by (simp add: field_simps)
qed

text \<open>
  C5. For a base price that fits the 32 bit \<open>price_cents\<close> column, \<open>calculatePricing\<close>
  returns as total the base price times 1.10 rounded to the nearest integer (half up),
  and as platform fee the total minus the base price. For base price 500 and a single
  participant holding 10000 basis points this is total 550, fee 50 and payouts [500]
  (the instance below).
\<close>

theorem calculatePricing_total_and_fee:
  assumes "0 \<le> p" and "p < 2 ^ 31"
  shows "pricing_total_cents (calculatePricing (of_int p) chain) = of_int (round (of_int p * 11 / 10 :: rat))
       \<and> pricing_pif_fee_cents (calculatePricing (of_int p) chain)
           = pricing_total_cents (calculatePricing (of_int p) chain) - of_int p"
  using pricing_total [OF assms] pricing_fee [OF assms]
  by (simp add: round_total)

theorem calculatePricing_500_single_participant:
  "(0 :: int) \<le> 500 \<and> (500 :: int) < 2 ^ 31
   \<and> pricing_total_cents (calculatePricing 500
        [\<lparr>member_id = ''m1'', share_basis_points = 10000, position = 0\<rparr>]) = 550
   \<and> pricing_pif_fee_cents (calculatePricing 500
        [\<lparr>member_id = ''m1'', share_basis_points = 10000, position = 0\<rparr>]) = 50
   \<and> map amount_cents (pricing_payouts (calculatePricing 500
        [\<lparr>member_id = ''m1'', share_basis_points = 10000, position = 0\<rparr>])) = [500]"
proof -
  have r: "round (500 * 11 / 10 :: rat) = 550"
    using round_total [of 500] by simp
  have pay: "map amount_cents (pricing_payouts (calculatePricing (of_int 500)
        [\<lparr>member_id = ''m1'', share_basis_points = 10000, position = 0\<rparr>])) = [500]"
    by (subst pricing_payouts_amounts) simp_all
  show ?thesis
    using calculatePricing_total_and_fee
      [of 500 "[\<lparr>member_id = ''m1'', share_basis_points = 10000, position = 0\<rparr>]"] pay
    by (simp add: r)
qed

text \<open>
  C3, as the claim states it, fails: with base price 1 and two participants holding
  5000 basis points each, both payouts round up to 1 and their sum is 2.
\<close>

theorem payout_sum_exceeds_base_price:
  "\<not> sum_list (map amount_cents (pricing_payouts (calculatePricing 1
        [\<lparr>member_id = ''m1'', share_basis_points = 5000, position = 0\<rparr>,
         \<lparr>member_id = ''m2'', share_basis_points = 5000, position = 1\<rparr>]))) \<le> 1"
proof -
  have "map amount_cents (pricing_payouts (calculatePricing (of_int 1)
        [\<lparr>member_id = ''m1'', share_basis_points = 5000, position = 0\<rparr>,
         \<lparr>member_id = ''m2'', share_basis_points = 5000, position = 1\<rparr>])) = [1, 1]"
    by (subst pricing_payouts_amounts) simp_all
  then show ?thesis by simp
qed

text \<open>
  C3, amended. For a base price that fits the 32 bit \<open>price_cents\<close> column and
  non-negative shares summing to 10000 basis points, every payout amount is the base
  price times the share over 10000, rounded to the nearest integer (half up); the sum
  of the payouts differs from the base price by at most half a unit per participant.
\<close>

theorem calculatePricing_payouts_rounded:
  assumes "0 \<le> p" and "p < 2 ^ 31"
    and "\<forall>e \<in> set chain. 0 \<le> share_basis_points e"
    and "sum_list (map share_basis_points chain) = 10000"
  shows "map amount_cents (pricing_payouts (calculatePricing (of_int p) chain))
           = map (\<lambda>e. of_int (round (of_int p * of_int (share_basis_points e) / 10000 :: rat))) chain
       \<and> 2 * sum_list (map amount_cents (pricing_payouts (calculatePricing (of_int p) chain)))
           \<le> 2 * of_int p + of_int (length chain)
       \<and> 2 * of_int p - of_int (length chain)
           \<le> 2 * sum_list (map amount_cents (pricing_payouts (calculatePricing (of_int p) chain)))"
proof -
  have le: "\<forall>e \<in> set chain. share_basis_points e \<le> 10000"
  proof
    fix e assume "e \<in> set chain"
    then have "share_basis_points e \<in> set (map share_basis_points chain)" by simp
    moreover have "\<forall>x \<in> set (map share_basis_points chain). 0 \<le> x" using assms(3) by simp
    ultimately have "share_basis_points e \<le> sum_list (map share_basis_points chain)"
      by (intro share_le_sum)
    then show "share_basis_points e \<le> 10000" by (simp add: assms(4))
  qed
  have "\<forall>e \<in> set chain. 0 \<le> share_basis_points e \<and> p * share_basis_points e < 2 ^ 45"
  proof
    fix e assume e: "e \<in> set chain"
    with assms(3) le have "0 \<le> share_basis_points e" "share_basis_points e \<le> 10000" by simp_all
    with share_product_bound [OF assms(1,2) this]
    show "0 \<le> share_basis_points e \<and> p * share_basis_points e < 2 ^ 45" by simp
  qed
  from pricing_payouts_amounts [OF assms(1) this]
  have amounts: "map amount_cents (pricing_payouts (calculatePricing (of_int p) chain))
           = map (\<lambda>e. of_int (round (of_int p * of_int (share_basis_points e) / 10000 :: rat))) chain"
    by (simp add: round_payout)
  have sum: "sum_list (map amount_cents (pricing_payouts (calculatePricing (of_int p) chain)))
      = (\<Sum>s\<leftarrow>map share_basis_points chain. of_int (round (of_int p * of_int s / 10000 :: rat)))"
    by (simp add: amounts comp_def)
  have up: "2 * sum_list (map amount_cents (pricing_payouts (calculatePricing (of_int p) chain)))
           \<le> 2 * of_int p + of_int (length chain)"
    using rounded_sum_upper [of p "map share_basis_points chain"]
    by (simp add: sum assms(4))
  have low: "2 * of_int p - of_int (length chain)
           \<le> 2 * sum_list (map amount_cents (pricing_payouts (calculatePricing (of_int p) chain)))"
    using rounded_sum_lower [of p "map share_basis_points chain"]
    by (simp add: sum assms(4))
  from amounts up low show ?thesis by simp
qed

theorem calculatePricing_payouts_rounded_witness:
  "(0 :: int) \<le> 1 \<and> (1 :: int) < 2 ^ 31
   \<and> sum_list (map amount_cents (pricing_payouts (calculatePricing 1
        [\<lparr>member_id = ''m1'', share_basis_points = 5000, position = 0\<rparr>,
         \<lparr>member_id = ''m2'', share_basis_points = 5000, position = 1\<rparr>]))) \<le> 2"
proof -
  have "2 * sum_list (map amount_cents (pricing_payouts (calculatePricing (of_int 1)
        [\<lparr>member_id = ''m1'', share_basis_points = 5000, position = 0\<rparr>,
         \<lparr>member_id = ''m2'', share_basis_points = 5000, position = 1\<rparr>])))
      \<le> 2 * of_int 1 + of_int (length
        [\<lparr>member_id = ''m1'', share_basis_points = 5000, position = 0\<rparr>,
         \<lparr>member_id = ''m2'', share_basis_points = 5000, position = 1\<rparr>])"
    by (rule calculatePricing_payouts_rounded [THEN conjunct2, THEN conjunct1]) simp_all
  then show ?thesis by simp
qed

section \<open>Queries against the schema\<close>

text \<open>
  The queries of \<open>resend-download\<close> and \<open>download\<close>, the file and flag queries of
  \<open>create-checkout\<close>, and all updates name columns their tables have.
\<close>

lemma select_order_id:
  "select_order [''id'', ''file_id'', ''buyer_email'', ''payment_status'', ''delivery_email_retries'']
     ''id'' v s = single_row (filter (\<lambda>x. order_id x = v) (orders s))"
  by (simp add: select_order_def known_columns_def orders_columns_def order_text_column_def)

lemma select_order_token:
  "select_order [''id'', ''file_id'', ''payment_status'', ''download_expires_at'',
       ''download_attempts'', ''buyer_email'', ''downloaded_at'']
     ''download_token'' v s = single_row (filter (\<lambda>x. download_token x = Some v) (orders s))"
  by (simp add: select_order_def known_columns_def orders_columns_def order_text_column_def)

lemma select_file_checkout:
  "select_file [''id'', ''title'', ''price_cents'', ''stage'', ''uploader_id''] v s
     = single_row (filter (\<lambda>f. file_id f = v) (files s))"
  by (simp add: select_file_def known_columns_def files_columns_def)

lemma select_file_download:
  "select_file [''storage_path'', ''title''] v s = single_row (filter (\<lambda>f. file_id f = v) (files s))"
  by (simp add: select_file_def known_columns_def files_columns_def)

lemma override_controls_query:
  "isPurchaseEnabled s =
     (case single_row (filter (\<lambda>c. feature_key c = ''marketplace_purchase'') (override_controls s)) of
        None \<Rightarrow> False
      | Some d \<Rightarrow> enabled d)"
  by (simp add: isPurchaseEnabled_def known_columns_def override_controls_columns_def)

lemma webhook_update_columns:
  "known_columns orders_columns
     [''payment_status'', ''download_token'', ''download_expires_at'', ''paid_at'', ''id'']"
  by (simp add: known_columns_def orders_columns_def)

lemma resend_update_columns:
  "known_columns orders_columns
     [''download_token'', ''download_expires_at'', ''delivery_email_retries'', ''id'']"
  by (simp add: known_columns_def orders_columns_def)

lemma download_update_columns:
  "known_columns orders_columns [''downloaded_at'', ''download_attempts'', ''id'']"
  by (simp add: known_columns_def orders_columns_def)

text \<open>
  The royalty query names \<open>share_basis_points\<close> and \<open>position\<close>, which
  \<open>file_royalty_chain\<close> does not have, and the order lookup of
  \<open>handleCheckoutCompleted\<close> filters on \<open>stripe_session_id\<close>, which \<open>orders\<close> does
  not have (its column is \<open>stripe_checkout_session_id\<close>): both always error. The two
  inserts are refused as well: the order insert names \<open>stripe_session_id\<close> and omits
  \<open>file_price_cents\<close>, the payout insert omits \<open>role\<close>.
\<close>

lemma select_royalty_chain_error: "select_royalty_chain f s = None"
  by (simp add: select_royalty_chain_def known_columns_def file_royalty_chain_columns_def)

lemma select_order_session_error:
  "select_order [''id'', ''file_id'', ''total_cents'', ''pif_fee_cents''] ''stripe_session_id'' v s = None"
  by (simp add: select_order_def known_columns_def orders_columns_def)

lemma order_insert_refused:
  "\<not> insert_accepted orders_columns orders_required
       [''id'', ''file_id'', ''buyer_email'', ''stripe_session_id'', ''payment_status'',
        ''total_cents'', ''pif_fee_cents'']"
  by (simp add: insert_accepted_def known_columns_def orders_columns_def)

lemma payout_insert_refused:
  "\<not> insert_accepted payouts_columns payouts_required
       [''order_id'', ''member_id'', ''amount_cents'', ''status'']"
  by (simp add: insert_accepted_def known_columns_def payouts_columns_def payouts_required_def)

lemma create_checkout_writes_nothing: "snd (create_checkout req s) = s"
  by (simp add: create_checkout_def select_royalty_chain_error split: option.split prod.split)

lemma handleCheckoutCompleted_writes_nothing: "snd (handleCheckoutCompleted req session s) = s"
  by (simp add: handleCheckoutCompleted_def select_order_session_error Let_def
      split: option.split prod.split)

lemma stripe_webhook_writes_nothing: "snd (stripe_webhook req s) = s"
  by (simp add: stripe_webhook_def handleCheckoutCompleted_writes_nothing handlePaymentFailed_def
      split: option.split)

section \<open>The webhook's event switch\<close>

text \<open>
  C10. A verified event whose type is neither \<open>checkout.session.completed\<close> nor
  \<open>payment_intent.payment_failed\<close> is acknowledged with status 200 and the database
  (every order and payout row) is left as it was.
\<close>

theorem webhook_unhandled_event_acknowledged:
  assumes "wh_method req = ''POST''"
    and "\<not> falsy (wh_signature req)"
    and "wh_event req = Some ev"
    and "ev_type ev \<noteq> Some ''checkout.session.completed''"
    and "ev_type ev \<noteq> Some ''payment_intent.payment_failed''"
  shows "status (fst (stripe_webhook req s)) = 200 \<and> snd (stripe_webhook req s) = s"
  using assms by (simp add: stripe_webhook_def verifyStripeSignature_def respond_def)

theorem webhook_unhandled_event_acknowledged_witness:
  "wh_method (example_webhook_request ''invoice.paid'' ''tok'' 1000) = ''POST''
   \<and> \<not> falsy (wh_signature (example_webhook_request ''invoice.paid'' ''tok'' 1000))
   \<and> status (fst (stripe_webhook (example_webhook_request ''invoice.paid'' ''tok'' 1000) example_db)) = 200
   \<and> snd (stripe_webhook (example_webhook_request ''invoice.paid'' ''tok'' 1000) example_db) = example_db"
  using webhook_unhandled_event_acknowledged
    [of "example_webhook_request ''invoice.paid'' ''tok'' 1000"
        "\<lparr>ev_type = Some ''invoice.paid'',
          ev_object = Some \<lparr>so_id = ''cs_test_a'',
            so_metadata = Some \<lparr>md_file_id = Some ''f1'',
                                  md_buyer_email = Some ''buyer@example.org''\<rparr>\<rparr>\<rparr>"
        example_db]
  by (simp add: example_webhook_request_def falsy_def)

section \<open>Failed payments\<close>

lemma handlePaymentFailed_noop: "snd (handlePaymentFailed paymentIntent s) = s"
  by (simp add: handlePaymentFailed_def)

text \<open>
  C8. \<open>handlePaymentFailed\<close> is documented to mark the order as failed, but its body
  only logs: after a \<open>payment_intent.payment_failed\<close> event the pending order of the
  example database is still pending.
\<close>

theorem payment_failed_leaves_order_pending:
  "status (fst (stripe_webhook (example_webhook_request ''payment_intent.payment_failed'' ''tok'' 1000) example_db)) = 200
   \<and> map payment_status (orders example_db) = [Pending]
   \<and> map payment_status (orders (snd (stripe_webhook
        (example_webhook_request ''payment_intent.payment_failed'' ''tok'' 1000) example_db))) = [Pending]"
  by (simp add: stripe_webhook_def verifyStripeSignature_def handlePaymentFailed_def respond_def
      example_webhook_request_def falsy_def example_db_def example_order_def)

section \<open>Purchase gate\<close>

lemma isPurchaseEnabled_master_switch:
  "isPurchaseEnabled (update_override_controls ''master_switch'' b s) = isPurchaseEnabled s"
proof -
  have flt: "filter (\<lambda>c. feature_key c = ''marketplace_purchase'')
          (map (\<lambda>c. if feature_key c = ''master_switch'' then c\<lparr>enabled := b\<rparr> else c) xs)
        = filter (\<lambda>c. feature_key c = ''marketplace_purchase'') xs" for xs
    by (induction xs) auto
  have "override_controls (update_override_controls ''master_switch'' b s)
      = map (\<lambda>c. if feature_key c = ''master_switch'' then c\<lparr>enabled := b\<rparr> else c)
          (override_controls s)"
    by (simp add: update_override_controls_def)
  then show ?thesis
    by (simp only: override_controls_query flt)
qed

lemma create_checkout_master_switch:
  "fst (create_checkout req (update_override_controls ''master_switch'' b s))
     = fst (create_checkout req s)"
proof -
  have f: "\<And>cols v. select_file cols v (update_override_controls ''master_switch'' b s)
      = select_file cols v s"
    by (simp add: select_file_def update_override_controls_def)
  show ?thesis
    by (simp add: create_checkout_def isPurchaseEnabled_master_switch f select_royalty_chain_error
        split: option.split prod.split)
qed

text \<open>
  C9, as the claim states it, fails: with the master switch off and the purchase flag
  on, \<open>create-checkout\<close> does not answer that purchases are disabled. The request
  passes the gate and is turned down only later, at the royalty query.
\<close>

theorem checkout_passes_gate_with_master_switch_off:
  "map (\<lambda>c. (feature_key c, enabled c)) (override_controls example_db)
     = [(''master_switch'', False), (''marketplace_purchase'', True)]
   \<and> fst (create_checkout example_checkout_request example_db)
       = respond 500 ''Royalty chain not configured for this file''
   \<and> status (fst (create_checkout example_checkout_request example_db)) \<noteq> 403"
  by (simp add: create_checkout_def override_controls_query select_file_checkout
      select_royalty_chain_error single_row_def respond_def falsy_def
      example_checkout_request_def example_db_def)

text \<open>
  C9, amended. The gate of \<open>create-checkout\<close> reads the \<open>marketplace_purchase\<close> flag
  alone. For a POST with both fields present: when that flag's row is missing or
  disabled the handler answers 403 and writes nothing; when it is enabled the handler
  never answers 403. The master switch is not read: setting it to either value changes
  neither the gate nor the response.
\<close>

theorem checkout_gate_reads_purchase_flag_only:
  assumes "cc_method req = ''POST''"
    and "cc_body req = Some (Some fid, Some bemail)"
    and "fid \<noteq> []" and "bemail \<noteq> []"
  shows "(\<not> isPurchaseEnabled s \<longrightarrow>
            create_checkout req s = (respond 403 ''Marketplace purchases are currently disabled'', s))
       \<and> (isPurchaseEnabled s \<longrightarrow> status (fst (create_checkout req s)) \<noteq> 403)
       \<and> isPurchaseEnabled (update_override_controls ''master_switch'' b s) = isPurchaseEnabled s
       \<and> fst (create_checkout req (update_override_controls ''master_switch'' b s))
           = fst (create_checkout req s)"
proof (intro conjI impI)
  assume "\<not> isPurchaseEnabled s"
  then show "create_checkout req s = (respond 403 ''Marketplace purchases are currently disabled'', s)"
    using assms by (simp add: create_checkout_def falsy_def)
next
  assume "isPurchaseEnabled s"
  then show "status (fst (create_checkout req s)) \<noteq> 403"
    using assms
    by (simp add: create_checkout_def falsy_def respond_def select_royalty_chain_error
        split: option.split)
next
  show "isPurchaseEnabled (update_override_controls ''master_switch'' b s) = isPurchaseEnabled s"
    by (rule isPurchaseEnabled_master_switch)
next
  show "fst (create_checkout req (update_override_controls ''master_switch'' b s))
           = fst (create_checkout req s)"
    by (rule create_checkout_master_switch)
qed

theorem checkout_gate_reads_purchase_flag_only_witness:
  "cc_method example_checkout_request = ''POST''
   \<and> isPurchaseEnabled example_db
   \<and> isPurchaseEnabled (update_override_controls ''master_switch'' True example_db)
   \<and> status (fst (create_checkout example_checkout_request example_db)) \<noteq> 403
   \<and> fst (create_checkout example_checkout_request
            (update_override_controls ''master_switch'' True example_db))
       = fst (create_checkout example_checkout_request example_db)
   \<and> create_checkout example_checkout_request
        (update_override_controls ''marketplace_purchase'' False example_db)
       = (respond 403 ''Marketplace purchases are currently disabled'',
          update_override_controls ''marketplace_purchase'' False example_db)"
proof -
  have req: "cc_method example_checkout_request = ''POST''"
    "cc_body example_checkout_request = Some (Some ''f1'', Some ''buyer@example.org'')"
    by (simp_all add: example_checkout_request_def)
  have on: "isPurchaseEnabled example_db"
    by (simp add: override_controls_query single_row_def example_db_def)
  have off: "\<not> isPurchaseEnabled (update_override_controls ''marketplace_purchase'' False example_db)"
    by (simp add: override_controls_query single_row_def update_override_controls_def example_db_def)
  from checkout_gate_reads_purchase_flag_only [OF req, of example_db True] on
  have a: "status (fst (create_checkout example_checkout_request example_db)) \<noteq> 403"
    "isPurchaseEnabled (update_override_controls ''master_switch'' True example_db)"
    "fst (create_checkout example_checkout_request
            (update_override_controls ''master_switch'' True example_db))
       = fst (create_checkout example_checkout_request example_db)"
    by simp_all
  from checkout_gate_reads_purchase_flag_only
    [OF req, of "update_override_controls ''marketplace_purchase'' False example_db" True] off
  have b: "create_checkout example_checkout_request
        (update_override_controls ''marketplace_purchase'' False example_db)
       = (respond 403 ''Marketplace purchases are currently disabled'',
          update_override_controls ''marketplace_purchase'' False example_db)"
    by simp
  from req(1) on a b show ?thesis by simp
qed

section \<open>Royalty chain check of create-checkout\<close>

text \<open>
  C4, as the claim states it, fails: for a split whose shares sum to 9999 basis
  points \<open>calculatePricing\<close> does not fail; at base price 100 it returns the total 110
  and the payout 100.
\<close>

theorem calculatePricing_prices_split_of_9999:
  "sum_list (map share_basis_points
      [\<lparr>member_id = ''m1'', share_basis_points = 9999, position = 0\<rparr>]) = 9999
   \<and> pricing_total_cents (calculatePricing 100
        [\<lparr>member_id = ''m1'', share_basis_points = 9999, position = 0\<rparr>]) = 110
   \<and> map amount_cents (pricing_payouts (calculatePricing 100
        [\<lparr>member_id = ''m1'', share_basis_points = 9999, position = 0\<rparr>])) = [100]"
proof -
  have t: "pricing_total_cents (calculatePricing (of_int 100)
        [\<lparr>member_id = ''m1'', share_basis_points = 9999, position = 0\<rparr>]) = of_int ((11 * 100 + 5) div 10)"
    by (rule pricing_total) simp_all
  have p: "map amount_cents (pricing_payouts (calculatePricing (of_int 100)
        [\<lparr>member_id = ''m1'', share_basis_points = 9999, position = 0\<rparr>])) = [100]"
    by (subst pricing_payouts_amounts) simp_all
  from t p show ?thesis by simp
qed

text \<open>
  C4, amended. \<open>calculatePricing\<close> has no failure and does not look at the sum of the
  shares: for every base price that fits the 32 bit \<open>price_cents\<close> column and every
  split sequence with shares from 0 to 16383 basis points, be it empty or of any sum,
  it returns one payout per entry, the base price times the share over 10000 rounded
  to the nearest integer (half up). The only royalty check is that of
  \<open>create-checkout\<close>: once the request has passed the earlier checks (POST, both
  fields present, purchases enabled, the file found and listed), the handler answers
  500 \<open>Royalty chain not configured\<close> and writes nothing whenever the royalty query
  errors or returns no rows.
\<close>

theorem royalty_split_never_validated:
  assumes "0 \<le> p" and "p < 2 ^ 31"
    and "\<forall>e \<in> set chain. 0 \<le> share_basis_points e \<and> share_basis_points e < 2 ^ 14"
    and "cc_method req = ''POST''"
    and "cc_body req = Some (Some fid, Some bemail)"
    and "fid \<noteq> []" and "bemail \<noteq> []"
    and "isPurchaseEnabled s"
    and "single_row (filter (\<lambda>f. file_id f = fid) (files s)) = Some fileRow"
    and "stage fileRow = ''listed''"
  shows "map amount_cents (pricing_payouts (calculatePricing (of_int p) chain))
           = map (\<lambda>e. of_int (round (of_int p * of_int (share_basis_points e) / 10000 :: rat))) chain
       \<and> (cc_royalty_error req \<or> select_royalty_chain fid s = None
            \<or> select_royalty_chain fid s = Some [] \<longrightarrow>
            create_checkout req s = (respond 500 ''Royalty chain not configured for this file'', s))"
proof (intro conjI impI)
  have "\<forall>e \<in> set chain. 0 \<le> share_basis_points e \<and> p * share_basis_points e < 2 ^ 45"
  proof
    fix e assume "e \<in> set chain"
    with assms(3) have s: "0 \<le> share_basis_points e" "share_basis_points e < 2 ^ 14" by simp_all
    have "p * share_basis_points e \<le> 2 ^ 31 * share_basis_points e"
      using assms(2) s(1) by (intro mult_right_mono) simp_all
    also have "\<dots> < 2 ^ 45" using s(2) by simp
    finally show "0 \<le> share_basis_points e \<and> p * share_basis_points e < 2 ^ 45" using s(1) by simp
  qed
  from pricing_payouts_amounts [OF assms(1) this]
  show "map amount_cents (pricing_payouts (calculatePricing (of_int p) chain))
           = map (\<lambda>e. of_int (round (of_int p * of_int (share_basis_points e) / 10000 :: rat))) chain"
    by (simp add: round_payout)
next
  assume "cc_royalty_error req \<or> select_royalty_chain fid s = None
            \<or> select_royalty_chain fid s = Some []"
  then show "create_checkout req s = (respond 500 ''Royalty chain not configured for this file'', s)"
    using assms(4-10)
    by (auto simp add: create_checkout_def falsy_def select_file_checkout)
qed

theorem royalty_split_never_validated_witness:
  "(0 :: int) \<le> 100 \<and> (100 :: int) < 2 ^ 31
   \<and> isPurchaseEnabled example_db
   \<and> select_royalty_chain ''f1'' example_db = None
   \<and> map amount_cents (pricing_payouts (calculatePricing 100
        [\<lparr>member_id = ''m1'', share_basis_points = 10001, position = 0\<rparr>]))
       = [of_int (round (100 * 10001 / 10000 :: rat))]
   \<and> create_checkout example_checkout_request example_db
       = (respond 500 ''Royalty chain not configured for this file'', example_db)"
proof -
  have on: "isPurchaseEnabled example_db"
    by (simp add: override_controls_query single_row_def example_db_def)
  have none: "select_royalty_chain ''f1'' example_db = None"
    by (rule select_royalty_chain_error)
  have frow: "single_row (filter (\<lambda>f. file_id f = ''f1'') (files example_db))
      = Some \<lparr>file_id = ''f1'', title = ''Chair'', price_cents = 500, stage = ''listed'',
          storage_path = ''u1/f1/chair.dxf''\<rparr>"
    by (simp add: example_db_def single_row_def)
  have req: "cc_method example_checkout_request = ''POST''"
    "cc_body example_checkout_request = Some (Some ''f1'', Some ''buyer@example.org'')"
    by (simp_all add: example_checkout_request_def)
  have "map amount_cents (pricing_payouts (calculatePricing (of_int 100)
          [\<lparr>member_id = ''m1'', share_basis_points = 10001, position = 0\<rparr>]))
        = map (\<lambda>e. of_int (round (of_int 100 * of_int (share_basis_points e) / 10000 :: rat)))
            [\<lparr>member_id = ''m1'', share_basis_points = 10001, position = 0\<rparr>]
      \<and> (cc_royalty_error example_checkout_request \<or> select_royalty_chain ''f1'' example_db = None
            \<or> select_royalty_chain ''f1'' example_db = Some [] \<longrightarrow>
          create_checkout example_checkout_request example_db
            = (respond 500 ''Royalty chain not configured for this file'', example_db))"
    by (rule royalty_split_never_validated [OF _ _ _ req _ _ on frow]) simp_all
  with none on show ?thesis by simp
qed

section \<open>Queries and updates\<close>

lemma single_row_Some: "single_row xs = Some x \<longleftrightarrow> xs = [x]"
  by (cases xs) (auto simp add: single_row_def split: list.splits)

lemma single_row_map: "single_row (map f xs) = map_option f (single_row xs)"
  by (cases xs) (auto simp add: single_row_def split: list.splits)

lemma filter_update_orders:
  assumes "\<And>r. P (f r) = P r"
  shows "filter P (orders (update_orders i f s))
       = map (\<lambda>r. if order_id r = i then f r else r) (filter P (orders s))"
proof -
  have "\<And>r. P (if order_id r = i then f r else r) = P r" using assms by simp
  then show ?thesis by (simp add: update_orders_def filter_map comp_def)
qed

lemma single_row_update_orders:
  assumes "\<And>r. P (f r) = P r" and "single_row (filter P (orders s)) = Some order"
  shows "single_row (filter P (orders (update_orders (order_id order) f s))) = Some (f order)"
  using assms(2) by (simp add: filter_update_orders [of P f, OF assms(1)] single_row_Some)

section \<open>Renewal\<close>

lemma resend_download_success:
  assumes "rs_method r = ''POST''" and "rs_user r = Some u" and "rs_body r = Some (Some oid)"
    and "oid \<noteq> []" and "\<not> rs_update_error r"
    and "single_row (filter (\<lambda>x. order_id x = oid) (orders s)) = Some order"
    and "email u = Some (buyer_email order)" and "payment_status order = Paid"
    and "or_zero (delivery_email_retries order) < 5"
  shows "resend_download r s =
     (respond 200 ''success'',
      update_orders (order_id order)
        (\<lambda>x. x\<lparr>download_token := Some (rs_uuid r),
                download_expires_at := Some (rs_now r + 72 * 60 * 60 * 1000),
                delivery_email_retries := Some (or_zero (delivery_email_retries order) + 1)\<rparr>) s)"
  using assms
  by (simp add: resend_download_def MAX_DELIVERY_RETRIES_def DOWNLOAD_TOKEN_TTL_MS_def Let_def
      select_order_id resend_update_columns)

lemma resend_download_limit:
  assumes "rs_method r = ''POST''" and "rs_user r = Some u" and "rs_body r = Some (Some oid)"
    and "oid \<noteq> []"
    and "single_row (filter (\<lambda>x. order_id x = oid) (orders s)) = Some order"
    and "email u = Some (buyer_email order)" and "payment_status order = Paid"
    and "5 \<le> or_zero (delivery_email_retries order)"
  shows "resend_download r s = (respond 429 ''Maximum delivery email retries exceeded'', s)"
  using assms
  by (simp add: resend_download_def MAX_DELIVERY_RETRIES_def Let_def select_order_id)

lemma resend_statuses:
  assumes "\<forall>r \<in> set rs. rs_method r = ''POST'' \<and> (\<exists>u. rs_user r = Some u \<and> email u = Some em)
             \<and> rs_body r = Some (Some oid) \<and> \<not> rs_update_error r"
    and "oid \<noteq> []"
    and "single_row (filter (\<lambda>x. order_id x = oid) (orders s)) = Some order"
    and "buyer_email order = em" and "payment_status order = Paid"
  shows "statuses (map ResendDownload rs) s
       = map (\<lambda>i. if or_zero (delivery_email_retries order) + int i < 5 then 200 else 429)
           [0..<length rs]"
  using assms
proof (induction rs arbitrary: s order)
  case Nil
  then show ?case by simp
next
  case (Cons r rs)
  from Cons.prems(1) obtain u where r: "rs_method r = ''POST''" "rs_user r = Some u"
    "email u = Some em" "rs_body r = Some (Some oid)" "\<not> rs_update_error r"
    by auto
  have rest: "\<forall>r \<in> set rs. rs_method r = ''POST'' \<and> (\<exists>u. rs_user r = Some u \<and> email u = Some em)
             \<and> rs_body r = Some (Some oid) \<and> \<not> rs_update_error r"
    using Cons.prems(1) by simp
  have oid: "order_id order = oid"
    using Cons.prems(3) by (auto simp add: single_row_Some filter_eq_Cons_iff)
  have em: "email u = Some (buyer_email order)" using r(3) Cons.prems(4) by simp
  let ?k = "or_zero (delivery_email_retries order)"
  have shift: "[0..<length (r # rs)] = 0 # map Suc [0..<length rs]"
    by (simp add: upt_conv_Cons map_Suc_upt del: upt_Suc)
  show ?case
  proof (cases "?k < 5")
    case True
    let ?f = "\<lambda>x. x\<lparr>download_token := Some (rs_uuid r),
                download_expires_at := Some (rs_now r + 72 * 60 * 60 * 1000),
                delivery_email_retries := Some (?k + 1)\<rparr>"
    have step: "resend_download r s = (respond 200 ''success'', update_orders (order_id order) ?f s)"
      by (rule resend_download_success [OF r(1,2,4) Cons.prems(2) r(5) Cons.prems(3) em Cons.prems(5) True])
    have found: "single_row (filter (\<lambda>x. order_id x = oid) (orders (update_orders (order_id order) ?f s)))
        = Some (?f order)"
      by (rule single_row_update_orders [OF _ Cons.prems(3)]) simp
    have "statuses (map ResendDownload rs) (update_orders (order_id order) ?f s)
       = map (\<lambda>i. if or_zero (delivery_email_retries (?f order)) + int i < 5 then 200 else 429)
           [0..<length rs]"
      by (rule Cons.IH [OF rest Cons.prems(2) found]) (simp_all add: Cons.prems(4,5))
    then show ?thesis
      using True by (simp only: shift) (simp add: step respond_def or_zero_def comp_def add.commute add.left_commute)
  next
    case False
    then have lim: "5 \<le> ?k" by simp
    have step: "resend_download r s = (respond 429 ''Maximum delivery email retries exceeded'', s)"
      by (rule resend_download_limit [OF r(1,2,4) Cons.prems(2) Cons.prems(3) em Cons.prems(5) lim])
    have "statuses (map ResendDownload rs) s
       = map (\<lambda>i. if ?k + int i < 5 then 200 else 429) [0..<length rs]"
      by (rule Cons.IH [OF rest Cons.prems(2,3,4,5)])
    then show ?thesis
      using lim by (simp only: shift) (simp add: step respond_def comp_def)
  qed
qed

text \<open>
  C6. For a paid order and a request of its buyer, \<open>resend-download\<close> succeeds when
  the retry count is below 5: it answers 200 and stores the fresh token, the expiry
  72 hours after the request and the count plus one. From 5 on it answers 429 and
  writes nothing. Hence in any run of such requests call number \<open>i + 1\<close> succeeds
  exactly when the initial count plus \<open>i\<close> is below 5: starting from 0, the first five
  calls succeed and the sixth fails.
\<close>

theorem resend_download_retry_cap:
  assumes "rs_method r = ''POST''" and "rs_user r = Some u" and "rs_body r = Some (Some oid)"
    and "oid \<noteq> []" and "\<not> rs_update_error r"
    and "single_row (filter (\<lambda>x. order_id x = oid) (orders s)) = Some order"
    and "email u = Some (buyer_email order)" and "payment_status order = Paid"
    and "\<forall>r \<in> set rs. rs_method r = ''POST''
            \<and> (\<exists>u. rs_user r = Some u \<and> email u = Some (buyer_email order))
            \<and> rs_body r = Some (Some oid) \<and> \<not> rs_update_error r"
  shows "(or_zero (delivery_email_retries order) < 5 \<longrightarrow>
            status (fst (resend_download r s)) = 200
            \<and> single_row (filter (\<lambda>x. order_id x = oid) (orders (snd (resend_download r s))))
                = Some (order\<lparr>download_token := Some (rs_uuid r),
                      download_expires_at := Some (rs_now r + 72 * 60 * 60 * 1000),
                      delivery_email_retries := Some (or_zero (delivery_email_retries order) + 1)\<rparr>))
       \<and> (5 \<le> or_zero (delivery_email_retries order) \<longrightarrow>
            status (fst (resend_download r s)) = 429 \<and> snd (resend_download r s) = s)
       \<and> statuses (map ResendDownload rs) s
           = map (\<lambda>i. if or_zero (delivery_email_retries order) + int i < 5 then 200 else 429)
               [0..<length rs]"
proof (intro conjI impI)
  assume k: "or_zero (delivery_email_retries order) < 5"
  note step = resend_download_success [OF assms(1-8) k]
  show "status (fst (resend_download r s)) = 200" by (simp add: step respond_def)
  show "single_row (filter (\<lambda>x. order_id x = oid) (orders (snd (resend_download r s))))
                = Some (order\<lparr>download_token := Some (rs_uuid r),
                      download_expires_at := Some (rs_now r + 72 * 60 * 60 * 1000),
                      delivery_email_retries := Some (or_zero (delivery_email_retries order) + 1)\<rparr>)"
    unfolding step snd_conv by (rule single_row_update_orders [OF _ assms(6)]) simp
next
  assume k: "5 \<le> or_zero (delivery_email_retries order)"
  note step = resend_download_limit [OF assms(1-4) assms(6-8) k]
  show "status (fst (resend_download r s)) = 429" by (simp add: step respond_def)
  show "snd (resend_download r s) = s" by (simp add: step)
next
  show "statuses (map ResendDownload rs) s
           = map (\<lambda>i. if or_zero (delivery_email_retries order) + int i < 5 then 200 else 429)
               [0..<length rs]"
    by (rule resend_statuses [OF assms(9) assms(4) assms(6) refl assms(8)])
qed

theorem resend_download_retry_cap_witness:
  "payment_status example_paid_order = Paid
   \<and> or_zero (delivery_email_retries example_paid_order) = 0
   \<and> status (fst (resend_download (example_resend_request ''tok-1'' 2000) example_paid_db)) = 200
   \<and> statuses (map ResendDownload
        [example_resend_request ''tok-1'' 2000, example_resend_request ''tok-2'' 3000,
         example_resend_request ''tok-3'' 4000, example_resend_request ''tok-4'' 5000,
         example_resend_request ''tok-5'' 6000, example_resend_request ''tok-6'' 7000])
        example_paid_db = [200, 200, 200, 200, 200, 429]"
proof -
  have ord: "single_row (filter (\<lambda>x. order_id x = ''o1'') (orders example_paid_db)) = Some example_paid_order"
    by (simp add: example_paid_db_def example_paid_order_def example_order_def single_row_def)
  have facts: "payment_status example_paid_order = Paid"
    "or_zero (delivery_email_retries example_paid_order) = 0"
    "buyer_email example_paid_order = ''buyer@example.org''"
    by (simp_all add: example_paid_order_def example_order_def or_zero_def)
  have upt: "[0..<6] = [0, 1, 2, 3, 4, 5]" by (simp add: upt_rec)
  from resend_download_retry_cap
    [of "example_resend_request ''tok-1'' 2000"
        "\<lparr>user_id = ''u9'', email = Some ''buyer@example.org''\<rparr>" "''o1''"
        example_paid_db example_paid_order
        "[example_resend_request ''tok-1'' 2000, example_resend_request ''tok-2'' 3000,
          example_resend_request ''tok-3'' 4000, example_resend_request ''tok-4'' 5000,
          example_resend_request ''tok-5'' 6000, example_resend_request ''tok-6'' 7000]"]
    ord facts
  show ?thesis by (simp add: example_resend_request_def upt)
qed

section \<open>Download past expiry\<close>

lemma update_orders_retries:
  assumes "\<And>x. delivery_email_retries (f x) = delivery_email_retries x"
  shows "map delivery_email_retries (orders (update_orders i f s)) = map delivery_email_retries (orders s)"
  using assms by (simp add: update_orders_def comp_def if_distrib [of delivery_email_retries] cong: if_cong)

text \<open>
  C7. For a paid order whose token has expired, \<open>download\<close> answers 410 and writes
  nothing when the requester is anonymous or is not the buyer. For the buyer it
  succeeds: it redirects (302) to the signed location of the order's stored file,
  records the download (\<open>downloaded_at\<close> becomes the time of the request and
  \<open>download_attempts\<close> goes up by one, unless the tracking update errors, which is
  not fatal), and the retry count of every order is what it was.
\<close>

theorem download_after_expiry:
  assumes "dl_method r = ''GET''" and "dl_token r = Some tok" and "tok \<noteq> []"
    and "single_row (filter (\<lambda>x. download_token x = Some tok) (orders s)) = Some order"
    and "payment_status order = Paid"
    and "download_expires_at order = Some t" and "t < dl_now r"
  shows "(dl_user r = None \<or> (\<exists>u. dl_user r = Some u \<and> email u \<noteq> Some (buyer_email order)) \<longrightarrow>
            download r s
              = (respond 410 ''Download link has expired. Sign in and request a new link.'', s))
       \<and> (\<forall>u fileRow. dl_user r = Some u \<and> email u = Some (buyer_email order)
            \<and> single_row (filter (\<lambda>f. file_id f = order_file_id order) (files s)) = Some fileRow \<longrightarrow>
            fst (download r s)
              = respond 302
                  (''https://placeholder.supabase.co/storage/v1/object/sign/marketplace-files/''
                     @ storage_path fileRow @ ''?token=PLACEHOLDER'')
            \<and> snd (download r s)
                = (if dl_track_error r then s
                   else update_orders (order_id order)
                          (\<lambda>x. x\<lparr>downloaded_at := Some (dl_now r),
                                  download_attempts := Some (or_zero (download_attempts order) + 1)\<rparr>) s)
            \<and> map delivery_email_retries (orders (snd (download r s)))
                = map delivery_email_retries (orders s))"
  using assms
  by (auto simp add: download_def Let_def update_orders_retries select_order_token
      select_file_download download_update_columns)

theorem download_after_expiry_witness:
  "payment_status example_paid_order = Paid
   \<and> status (fst (download (example_download_request None) example_paid_db)) = 410
   \<and> status (fst (download (example_download_request
        (Some \<lparr>user_id = ''u7'', email = Some ''other@example.org''\<rparr>)) example_paid_db)) = 410
   \<and> fst (download (example_download_request
        (Some \<lparr>user_id = ''u9'', email = Some ''buyer@example.org''\<rparr>)) example_paid_db)
       = respond 302
           ''https://placeholder.supabase.co/storage/v1/object/sign/marketplace-files/u1/f1/chair.dxf?token=PLACEHOLDER''
   \<and> map download_attempts (orders (snd (download (example_download_request
        (Some \<lparr>user_id = ''u9'', email = Some ''buyer@example.org''\<rparr>)) example_paid_db))) = [Some 1]
   \<and> map downloaded_at (orders (snd (download (example_download_request
        (Some \<lparr>user_id = ''u9'', email = Some ''buyer@example.org''\<rparr>)) example_paid_db)))
       = [Some 300000000]
   \<and> map delivery_email_retries (orders (snd (download (example_download_request
        (Some \<lparr>user_id = ''u9'', email = Some ''buyer@example.org''\<rparr>)) example_paid_db))) = [Some 0]"
proof -
  let ?buyer = "Some \<lparr>user_id = ''u9'', email = Some ''buyer@example.org''\<rparr>"
  have ord: "single_row (filter (\<lambda>x. download_token x = Some ''tok-0'') (orders example_paid_db))
      = Some example_paid_order"
    by (simp add: example_paid_db_def example_paid_order_def example_order_def single_row_def)
  have facts: "payment_status example_paid_order = Paid"
    "download_expires_at example_paid_order = Some 259201000"
    "buyer_email example_paid_order = ''buyer@example.org''"
    "order_file_id example_paid_order = ''f1''"
    "order_id example_paid_order = ''o1''"
    "download_attempts example_paid_order = Some 0"
    by (simp_all add: example_paid_order_def example_order_def)
  have frow: "single_row (filter (\<lambda>f. file_id f = ''f1'') (files example_paid_db))
      = Some \<lparr>file_id = ''f1'', title = ''Chair'', price_cents = 500, stage = ''listed'',
          storage_path = ''u1/f1/chair.dxf''\<rparr>"
    by (simp add: example_paid_db_def example_db_def single_row_def)
  have retries: "map delivery_email_retries (orders example_paid_db) = [Some 0]"
    by (simp add: example_paid_db_def example_paid_order_def example_order_def)
  have a: "status (fst (download (example_download_request None) example_paid_db)) = 410"
    using download_after_expiry [of "example_download_request None" "''tok-0''" example_paid_db
        example_paid_order 259201000] ord facts
    by (simp add: example_download_request_def respond_def)
  have b: "status (fst (download (example_download_request
        (Some \<lparr>user_id = ''u7'', email = Some ''other@example.org''\<rparr>)) example_paid_db)) = 410"
    using download_after_expiry [of "example_download_request
        (Some \<lparr>user_id = ''u7'', email = Some ''other@example.org''\<rparr>)" "''tok-0''" example_paid_db
        example_paid_order 259201000] ord facts
    by (simp add: example_download_request_def respond_def)
  have c: "fst (download (example_download_request ?buyer) example_paid_db)
       = respond 302
           ''https://placeholder.supabase.co/storage/v1/object/sign/marketplace-files/u1/f1/chair.dxf?token=PLACEHOLDER''
      \<and> snd (download (example_download_request ?buyer) example_paid_db)
       = update_orders ''o1''
           (\<lambda>x. x\<lparr>downloaded_at := Some 300000000, download_attempts := Some 1\<rparr>) example_paid_db
      \<and> map delivery_email_retries (orders (snd (download (example_download_request ?buyer) example_paid_db)))
       = [Some 0]"
    using download_after_expiry [of "example_download_request ?buyer" "''tok-0''" example_paid_db
        example_paid_order 259201000] ord facts frow retries
    by (simp add: example_download_request_def or_zero_def update_orders_retries)
  from c have c1: "fst (download (example_download_request ?buyer) example_paid_db)
       = respond 302
           ''https://placeholder.supabase.co/storage/v1/object/sign/marketplace-files/u1/f1/chair.dxf?token=PLACEHOLDER''"
    and c2: "snd (download (example_download_request ?buyer) example_paid_db)
       = update_orders ''o1''
           (\<lambda>x. x\<lparr>downloaded_at := Some 300000000, download_attempts := Some 1\<rparr>) example_paid_db"
    and c3: "map delivery_email_retries (orders (snd (download (example_download_request ?buyer) example_paid_db)))
       = [Some 0]"
    by blast+
  have d1: "map download_attempts (orders (snd (download (example_download_request ?buyer) example_paid_db)))
        = [Some 1]"
    unfolding c2
    by (simp add: update_orders_def example_paid_db_def example_paid_order_def example_order_def)
  have d2: "map downloaded_at (orders (snd (download (example_download_request ?buyer) example_paid_db)))
        = [Some 300000000]"
    unfolding c2
    by (simp add: update_orders_def example_paid_db_def example_paid_order_def example_order_def)
  from facts(1) a b c1 d1 d2 c3 show ?thesis by (intro conjI)
qed

section \<open>What each handler does to the orders table\<close>

lemma single_row_filter_unique:
  assumes "single_row (filter P xs) = Some x"
  shows "P x \<and> x \<in> set xs \<and> (\<forall>y \<in> set xs. P y \<longrightarrow> y = x)"
proof -
  from assms have eq: "filter P xs = [x]" by (simp add: single_row_Some)
  then have "x \<in> set (filter P xs)" by simp
  moreover have "\<forall>y \<in> set xs. P y \<longrightarrow> y = x"
  proof (intro ballI impI)
    fix y assume "y \<in> set xs" "P y"
    then have "y \<in> set (filter P xs)" by simp
    then show "y = x" by (simp add: eq)
  qed
  ultimately show ?thesis by simp
qed

lemma resend_download_orders:
  "orders (snd (resend_download req s)) = orders s
   \<or> (\<exists>i tok e k. (\<forall>r \<in> set (orders s). order_id r = i \<longrightarrow> payment_status r = Paid)
        \<and> orders (snd (resend_download req s))
            = orders (update_orders i (\<lambda>r. r\<lparr>download_token := Some tok,
                download_expires_at := Some e, delivery_email_retries := Some k\<rparr>) s))"
proof (cases "\<exists>u oid order. rs_method req = ''POST'' \<and> rs_user req = Some u
    \<and> rs_body req = Some (Some oid) \<and> oid \<noteq> [] \<and> \<not> rs_update_error req
    \<and> single_row (filter (\<lambda>x. order_id x = oid) (orders s)) = Some order
    \<and> email u = Some (buyer_email order) \<and> payment_status order = Paid
    \<and> or_zero (delivery_email_retries order) < 5")
  case True
  then obtain u oid order where c: "rs_method req = ''POST''" "rs_user req = Some u"
    "rs_body req = Some (Some oid)" "oid \<noteq> []" "\<not> rs_update_error req"
    "single_row (filter (\<lambda>x. order_id x = oid) (orders s)) = Some order"
    "email u = Some (buyer_email order)" "payment_status order = Paid"
    "or_zero (delivery_email_retries order) < 5"
    by blast
  from single_row_filter_unique [OF c(6)]
  have "order_id order = oid" "\<forall>y \<in> set (orders s). order_id y = oid \<longrightarrow> y = order" by simp_all
  with c(8) have paid: "\<forall>r \<in> set (orders s). order_id r = order_id order \<longrightarrow> payment_status r = Paid"
    by auto
  note step = resend_download_success [OF c]
  have "orders (snd (resend_download req s))
      = orders (update_orders (order_id order) (\<lambda>r. r\<lparr>download_token := Some (rs_uuid req),
          download_expires_at := Some (rs_now req + 72 * 60 * 60 * 1000),
          delivery_email_retries := Some (or_zero (delivery_email_retries order) + 1)\<rparr>) s)"
    by (simp only: step snd_conv)
  with paid show ?thesis by blast
next
  case False
  then have "snd (resend_download req s) = s"
    by (auto simp add: resend_download_def Let_def MAX_DELIVERY_RETRIES_def select_order_id
        split: option.split)
  then show ?thesis by simp
qed

lemma download_orders:
  "orders (snd (download req s)) = orders s
   \<or> (\<exists>i d a. orders (snd (download req s))
        = orders (update_orders i (\<lambda>r. r\<lparr>downloaded_at := Some d, download_attempts := Some a\<rparr>) s))"
  unfolding download_def Let_def
  by (auto simp add: download_update_columns split: option.split)

section \<open>Invariant preservation\<close>

lemma db_invariant_cong: "orders s' = orders s \<Longrightarrow> db_invariant s' = db_invariant s"
  by (simp add: db_invariant_def)

lemma paid_kept_cong: "orders s' = orders t \<Longrightarrow> paid_kept s s' = paid_kept s t"
  by (simp add: paid_kept_def)

lemma paid_kept_refl: "paid_kept s s"
  by (simp add: paid_kept_def)

lemma paid_kept_trans: "paid_kept s t \<Longrightarrow> paid_kept t u \<Longrightarrow> paid_kept s u"
  unfolding paid_kept_def by (metis le_trans less_le_trans)

lemma db_invariant_update:
  assumes "db_invariant s"
    and "\<forall>r \<in> set (orders s). order_id r = i \<longrightarrow> credential_invariant (f r)"
  shows "db_invariant (update_orders i f s)"
  using assms by (auto simp add: db_invariant_def update_orders_def)

lemma paid_kept_update:
  assumes "\<And>r. order_id (f r) = order_id r"
    and "\<And>r. payment_status r = Paid \<Longrightarrow> payment_status (f r) = Paid"
  shows "paid_kept s (update_orders i f s)"
  using assms by (simp add: paid_kept_def update_orders_def)

lemma serve_invariant:
  assumes "db_invariant s"
  shows "db_invariant (snd (serve req s))"
proof (cases req)
  case (CreateCheckout r)
  show ?thesis using assms by (simp add: CreateCheckout create_checkout_writes_nothing)
next
  case (StripeWebhook r)
  show ?thesis using assms by (simp add: StripeWebhook stripe_webhook_writes_nothing)
next
  case (ResendDownload r)
  from resend_download_orders [of r s] show ?thesis
  proof (elim disjE exE conjE)
    assume same: "orders (snd (resend_download r s)) = orders s"
    show ?thesis using assms by (simp add: ResendDownload db_invariant_cong [OF same])
  next
    fix i tok e k
    assume paid: "\<forall>r \<in> set (orders s). order_id r = i \<longrightarrow> payment_status r = Paid"
      and eq: "orders (snd (resend_download r s))
        = orders (update_orders i (\<lambda>r. r\<lparr>download_token := Some tok,
                download_expires_at := Some e, delivery_email_retries := Some k\<rparr>) s)"
    have "db_invariant (update_orders i (\<lambda>r. r\<lparr>download_token := Some tok,
                download_expires_at := Some e, delivery_email_retries := Some k\<rparr>) s)"
    proof (rule db_invariant_update [OF assms], intro ballI impI)
      fix x assume "x \<in> set (orders s)" "order_id x = i"
      with assms paid have "credential_invariant x" "payment_status x = Paid"
        by (simp_all add: db_invariant_def)
      then show "credential_invariant (x\<lparr>download_token := Some tok,
                download_expires_at := Some e, delivery_email_retries := Some k\<rparr>)"
        by (simp add: credential_invariant_def)
    qed
    then show ?thesis by (simp add: ResendDownload db_invariant_cong [OF eq])
  qed
next
  case (Download r)
  from download_orders [of r s] show ?thesis
  proof (elim disjE exE)
    assume same: "orders (snd (download r s)) = orders s"
    show ?thesis using assms by (simp add: Download db_invariant_cong [OF same])
  next
    fix i d a
    assume eq: "orders (snd (download r s))
        = orders (update_orders i (\<lambda>r. r\<lparr>downloaded_at := Some d, download_attempts := Some a\<rparr>) s)"
    have "db_invariant (update_orders i (\<lambda>r. r\<lparr>downloaded_at := Some d, download_attempts := Some a\<rparr>) s)"
    proof (rule db_invariant_update [OF assms], intro ballI impI)
      fix x assume "x \<in> set (orders s)" "order_id x = i"
      with assms have "credential_invariant x" by (simp add: db_invariant_def)
      then show "credential_invariant (x\<lparr>downloaded_at := Some d, download_attempts := Some a\<rparr>)"
        by (simp add: credential_invariant_def)
    qed
    then show ?thesis by (simp add: Download db_invariant_cong [OF eq])
  qed
qed

lemma paid_kept_orders_update:
  assumes "orders s' = orders (update_orders i f s)"
    and "\<And>r. order_id (f r) = order_id r"
    and "\<And>r. payment_status r = Paid \<Longrightarrow> payment_status (f r) = Paid"
  shows "paid_kept s s'"
  using paid_kept_update [of f s i, OF assms(2,3)] by (simp add: paid_kept_cong [OF assms(1)])

lemma paid_kept_orders_same: "orders s' = orders s \<Longrightarrow> paid_kept s s'"
  by (simp add: paid_kept_def)

lemma serve_paid_kept: "paid_kept s (snd (serve req s))"
proof (cases req)
  case (CreateCheckout r)
  show ?thesis by (simp add: CreateCheckout create_checkout_writes_nothing paid_kept_refl)
next
  case (StripeWebhook r)
  show ?thesis by (simp add: StripeWebhook stripe_webhook_writes_nothing paid_kept_refl)
next
  case (ResendDownload r)
  from resend_download_orders [of r s] show ?thesis
    unfolding ResendDownload serve.simps
    by (elim disjE exE conjE) (erule paid_kept_orders_same, erule paid_kept_orders_update, simp_all)
next
  case (Download r)
  from download_orders [of r s] show ?thesis
    unfolding Download serve.simps
    by (elim disjE exE conjE) (erule paid_kept_orders_same, erule paid_kept_orders_update, simp_all)
qed

lemma run_invariant: "db_invariant s \<Longrightarrow> db_invariant (run rs s)"
  by (induction rs arbitrary: s) (simp_all add: serve_invariant)

lemma run_paid_kept: "paid_kept s (run rs s)"
proof (induction rs arbitrary: s)
  case Nil
  show ?case by (simp add: paid_kept_refl)
next
  case (Cons r rs)
  from serve_paid_kept [of s r] Cons [of "snd (serve r s)"] show ?case
    by (simp add: paid_kept_trans)
qed

text \<open>
  C2. Every sequence of checkout, webhook, renewal and download requests preserves the
  order invariant: a download token is present only on a paid order, and a paid order
  has its payment time and a token. Rows keep their place and id, and a row that is
  paid stays paid, so it is never seen as failed afterwards.
\<close>

theorem order_invariant_preserved:
  assumes "db_invariant s"
  shows "db_invariant (run rs s)
       \<and> (\<forall>i < length (orders s). payment_status (orders s ! i) = Paid \<longrightarrow>
            i < length (orders (run rs s))
            \<and> order_id (orders (run rs s) ! i) = order_id (orders s ! i)
            \<and> payment_status (orders (run rs s) ! i) = Paid
            \<and> payment_status (orders (run rs s) ! i) \<noteq> Failed)"
  using run_invariant [OF assms, of rs] run_paid_kept [of s rs]
  by (auto simp add: paid_kept_def)

theorem order_invariant_preserved_witness:
  "db_invariant example_paid_db
   \<and> db_invariant (run
        [CreateCheckout example_checkout_request,
         StripeWebhook (example_webhook_request ''payment_intent.payment_failed'' ''tok-1'' 1000),
         StripeWebhook (example_webhook_request ''checkout.session.completed'' ''tok-2'' 2000),
         ResendDownload (example_resend_request ''tok-3'' 3000),
         Download (example_download_request None)] example_paid_db)
   \<and> payment_status (orders (run
        [CreateCheckout example_checkout_request,
         StripeWebhook (example_webhook_request ''payment_intent.payment_failed'' ''tok-1'' 1000),
         StripeWebhook (example_webhook_request ''checkout.session.completed'' ''tok-2'' 2000),
         ResendDownload (example_resend_request ''tok-3'' 3000),
         Download (example_download_request None)] example_paid_db) ! 0) = Paid"
proof -
  have inv: "db_invariant example_paid_db"
    by (simp add: db_invariant_def credential_invariant_def example_paid_db_def
        example_paid_order_def example_order_def)
  have paid: "0 < length (orders example_paid_db)"
    "payment_status (orders example_paid_db ! 0) = Paid"
    by (simp_all add: example_paid_db_def example_paid_order_def example_order_def)
  from order_invariant_preserved [OF inv, of
        "[CreateCheckout example_checkout_request,
         StripeWebhook (example_webhook_request ''payment_intent.payment_failed'' ''tok-1'' 1000),
         StripeWebhook (example_webhook_request ''checkout.session.completed'' ''tok-2'' 2000),
         ResendDownload (example_resend_request ''tok-3'' 3000),
         Download (example_download_request None)]"] inv paid
  show ?thesis by blast
qed

section \<open>Delivery of a completed checkout\<close>

lemma completed_checkout_not_found:
  assumes "wh_method r = ''POST''" and "\<not> falsy (wh_signature r)"
    and "wh_event r = Some \<lparr>ev_type = Some ''checkout.session.completed'', ev_object = Some session\<rparr>"
    and "so_metadata session = Some md"
    and "md_file_id md = Some fid" and "fid \<noteq> []"
    and "md_buyer_email md = Some bemail" and "bemail \<noteq> []"
  shows "stripe_webhook r s = (respond 404 ''Order not found'', s)"
  using assms
  by (simp add: stripe_webhook_def verifyStripeSignature_def handleCheckoutCompleted_def
      select_order_session_error Let_def)

text \<open>
  C1. \<open>handleCheckoutCompleted\<close> is documented to mark the order paid, set its
  download token and create the payout rows. Its order lookup filters on
  \<open>stripe_session_id\<close>, while the column of the orders table is
  \<open>stripe_checkout_session_id\<close>, so the lookup errors and the handler answers 404
  \<open>Order not found\<close> before any write. After two deliveries of the same
  \<open>checkout.session.completed\<close> event for the session of the example order, the
  order is still pending without payment time, and there is no payout row: not the
  one batch and the one payment time of an idempotent handler.
\<close>

theorem completed_checkout_never_finds_order:
  "map stripe_checkout_session_id (orders example_db) = [Some ''cs_test_a'']
   \<and> fst (stripe_webhook (example_webhook_request ''checkout.session.completed'' ''tok-1'' 1000)
          example_db) = respond 404 ''Order not found''
   \<and> fst (stripe_webhook (example_webhook_request ''checkout.session.completed'' ''tok-2'' 2000)
          (snd (stripe_webhook (example_webhook_request ''checkout.session.completed'' ''tok-1'' 1000)
             example_db))) = respond 404 ''Order not found''
   \<and> payouts (snd (stripe_webhook (example_webhook_request ''checkout.session.completed'' ''tok-2'' 2000)
          (snd (stripe_webhook (example_webhook_request ''checkout.session.completed'' ''tok-1'' 1000)
             example_db)))) = []
   \<and> map payment_status (orders (snd (stripe_webhook
          (example_webhook_request ''checkout.session.completed'' ''tok-2'' 2000)
          (snd (stripe_webhook (example_webhook_request ''checkout.session.completed'' ''tok-1'' 1000)
             example_db))))) = [Pending]
   \<and> map paid_at (orders (snd (stripe_webhook
          (example_webhook_request ''checkout.session.completed'' ''tok-2'' 2000)
          (snd (stripe_webhook (example_webhook_request ''checkout.session.completed'' ''tok-1'' 1000)
             example_db))))) = [None]"
proof -
  have r: "stripe_webhook (example_webhook_request ''checkout.session.completed'' tok t) s
      = (respond 404 ''Order not found'', s)" for tok t s
    by (rule completed_checkout_not_found
        [where session = "\<lparr>so_id = ''cs_test_a'',
            so_metadata = Some \<lparr>md_file_id = Some ''f1'',
                                  md_buyer_email = Some ''buyer@example.org''\<rparr>\<rparr>"
          and md = "\<lparr>md_file_id = Some ''f1'', md_buyer_email = Some ''buyer@example.org''\<rparr>"
          and fid = "''f1''" and bemail = "''buyer@example.org''"])
      (simp_all add: example_webhook_request_def falsy_def)
  show ?thesis
    by (simp add: r example_db_def example_order_def)
qed

end
